theory Spec2Isabelle
  imports Main
begin

section \<open>Strings\<close>

text \<open>
  Python strings are modelled as \<^typ>\<open>string\<close>, a character outside ASCII by
  its UTF-8 bytes. \<open>str.lower\<close> is modelled on the ASCII letters and on U+212A
  KELVIN SIGN, the one character outside ASCII whose lower case is an ASCII letter
  (\<open>k\<close>). The lower case of every other character outside ASCII holds a character
  outside ASCII, so leaving its bytes as they are decides a comparison with the ASCII
  extensions of \<open>CONFIG\<close> as Python does.
\<close>

definition ascii_uppercase :: string where
  "ascii_uppercase = ''ABCDEFGHIJKLMNOPQRSTUVWXYZ''"

definition ascii_lowercase :: string where
  "ascii_lowercase = ''abcdefghijklmnopqrstuvwxyz''"

definition lower_char :: "char \<Rightarrow> char" where
  "lower_char c =
     (case map_of (zip ascii_uppercase ascii_lowercase) c of Some d \<Rightarrow> d | None \<Rightarrow> c)"

definition KELVIN_SIGN :: string where
  "KELVIN_SIGN = [CHR 0xE2, CHR 0x84, CHR 0xAA]"

fun lower :: "string \<Rightarrow> string" where
  "lower (a # b # c # s) =
     (if [a, b, c] = KELVIN_SIGN then CHR ''k'' # lower s
      else lower_char a # lower (b # c # s))"
| "lower (a # s) = lower_char a # lower s"
| "lower [] = []"

text \<open>\<open>sep.join(xs)\<close>.\<close>

fun join :: "string \<Rightarrow> string list \<Rightarrow> string" where
  "join sep [] = []"
| "join sep [x] = x"
| "join sep (x # y # ys) = x @ sep @ join sep (y # ys)"

text \<open>\<open>s.rfind(c)\<close>: the highest index of \<open>c\<close> in \<open>s\<close>, or \<open>-1\<close>.\<close>

definition rfind :: "string \<Rightarrow> char \<Rightarrow> int" where
  "rfind s c =
     (if c \<in> set s
      then int (length s) - 1 - int (length (takeWhile (\<lambda>x. x \<noteq> c) (rev s)))
      else - 1)"

text \<open>\<open>t in s\<close> for strings: \<open>t\<close> occurs in \<open>s\<close> as a contiguous run.\<close>

fun contains :: "string \<Rightarrow> string \<Rightarrow> bool" where
  "contains [] t = (t = [])"
| "contains (c # s) t = (take (length t) (c # s) = t \<or> contains s t)"

text \<open>\<open>s.startswith(t)\<close>.\<close>

definition startswith :: "string \<Rightarrow> string \<Rightarrow> bool" where
  "startswith s t = (take (length t) s = t)"

text \<open>Decimal rendering of the integers an f-string interpolates.\<close>

definition digit_char :: "nat \<Rightarrow> char" where
  "digit_char d = ''0123456789'' ! d"

function str_nat :: "nat \<Rightarrow> string" where
  "str_nat n = (if n < 10 then [digit_char n] else str_nat (n div 10) @ [digit_char (n mod 10)])"
  by pat_completeness auto
termination
  by (relation "measure (\<lambda>n. n)") auto

definition str_int :: "int \<Rightarrow> string" where
  "str_int i = (if i < 0 then CHR ''-'' # str_nat (nat (- i)) else str_nat (nat i))"

definition apostrophe :: string where
  "apostrophe = [CHR 0x27]"

definition newline :: string where
  "newline = [CHR 0x0A]"

definition backslash :: string where
  "backslash = [CHR 0x5C]"


section \<open>Exceptions\<close>

text \<open>
  The exceptions that the library calls of the two programs raise, each carrying the
  text that \<open>str(e)\<close> gives. All of them are subclasses of \<open>Exception\<close>: both
  programs run the code modelled here on a worker thread, where no
  \<open>KeyboardInterrupt\<close> is delivered. \<open>subprocess.CalledProcessError\<close> is a
  constructor of \<open>run_outcome\<close> below.
\<close>

datatype exn =
    FileNotFoundError string
  | PermissionError string
  | NotADirectoryError string
  | OSError string
  | ValueError string
  | UnicodeDecodeError string
  | RuntimeError string

fun str_exn :: "exn \<Rightarrow> string" where
  "str_exn (FileNotFoundError m) = m"
| "str_exn (PermissionError m) = m"
| "str_exn (NotADirectoryError m) = m"
| "str_exn (OSError m) = m"
| "str_exn (ValueError m) = m"
| "str_exn (UnicodeDecodeError m) = m"
| "str_exn (RuntimeError m) = m"


section \<open>Paths\<close>

text \<open>
  A \<open>pathlib.Path\<close>: the text of the directory part, with its trailing separator,
  and the final component. \<open>str(p)\<close> is their concatenation.
\<close>

record path =
  parent :: string
  name :: string

definition str_path :: "path \<Rightarrow> string" where
  "str_path p = parent p @ name p"

text \<open>
  \<open>PurePath.suffix\<close> and \<open>PurePath.stem\<close> (Python 3.9 to 3.13):
  \<^verbatim>\<open>
  i = name.rfind('.')
  if 0 < i < len(name) - 1: return name[i:]    # stem: name[:i]
  else: return ''                              # stem: name
  \<close>
\<close>

definition suffix :: "path \<Rightarrow> string" where
  "suffix p =
     (let i = rfind (name p) CHR ''.''
      in if 0 < i \<and> i < int (length (name p)) - 1 then drop (nat i) (name p) else [])"

definition stem :: "path \<Rightarrow> string" where
  "stem p =
     (let i = rfind (name p) CHR ''.''
      in if 0 < i \<and> i < int (length (name p)) - 1 then take (nat i) (name p) else name p)"

text \<open>
  The two flavours of pathlib and their separators: the slash on POSIX, the backslash
  and the slash on Windows.
\<close>

datatype flavour = Posix | Windows

fun seps :: "flavour \<Rightarrow> char list" where
  "seps Posix = ''/''"
| "seps Windows = [CHR 0x5C, CHR ''/'']"

text \<open>
  \<open>with_name\<close>, \<open>with_stem\<close> and \<open>with_suffix\<close> raise \<open>ValueError\<close> on a path
  with an empty name and on a new name or suffix that is empty, is \<open>.\<close> or holds a
  separator.
\<close>

definition with_name :: "flavour \<Rightarrow> path \<Rightarrow> string \<Rightarrow> exn + path" where
  "with_name fl p n =
     (if name p = [] then Inl (ValueError ''path has an empty name'')
      else if n = [] \<or> (\<exists>c \<in> set n. c \<in> set (seps fl)) \<or> n = ''.''
      then Inl (ValueError ''Invalid name'')
      else Inr (p\<lparr>name := n\<rparr>))"

definition with_stem :: "flavour \<Rightarrow> path \<Rightarrow> string \<Rightarrow> exn + path" where
  "with_stem fl p s = with_name fl p (s @ suffix p)"

definition with_suffix :: "flavour \<Rightarrow> path \<Rightarrow> string \<Rightarrow> exn + path" where
  "with_suffix fl p s =
     (if (\<exists>c \<in> set s. c \<in> set (seps fl)) then Inl (ValueError ''Invalid suffix'')
      else if (s \<noteq> [] \<and> \<not> startswith s ''.'') \<or> s = ''.''
      then Inl (ValueError ''Invalid suffix'')
      else if name p = [] then Inl (ValueError ''path has an empty name'')
      else let old_suffix = suffix p
           in if old_suffix = [] then Inr (p\<lparr>name := name p @ s\<rparr>)
              else Inr (p\<lparr>name := take (length (name p) - length old_suffix) (name p) @ s\<rparr>))"


section \<open>Configuration\<close>

text \<open>The \<open>CONFIG\<close> dictionary, the same in both programs.\<close>

definition VIDEO_EXTENSIONS :: "string list" where
  "VIDEO_EXTENSIONS = [''.mp4'', ''.mkv'']"

definition SUBTITLE_EXTENSION :: string where
  "SUBTITLE_EXTENSION = ''.srt''"

definition MKVMERGE_PATH :: string where
  "MKVMERGE_PATH =
     ''C:'' @ backslash @ ''Program Files'' @ backslash @ ''MKVToolNix'' @ backslash @ ''mkvmerge.exe''"

definition OUTPUT_SUFFIX :: string where
  "OUTPUT_SUFFIX = ''_subbed''"


section \<open>The environment and the effects\<close>

text \<open>
  What launching the external tool yields to \<open>subprocess.run\<close>, called with
  \<open>capture_output=True, text=True, encoding='utf-8'\<close>:
  \<^item> \<open>Exited\<close>: the tool ran and exited with a status; its standard output and its
    standard error were captured and decoded as text;
  \<^item> \<open>Undecodable\<close>: the tool ran and exited with a status, but its captured output
    is not valid UTF-8 and decoding it raised \<open>UnicodeDecodeError\<close> with this text;
  \<^item> \<open>LaunchRaised\<close>: the launch itself raised.
\<close>

datatype proc_outcome =
    Exited int string string
  | Undecodable int string
  | LaunchRaised exn

text \<open>
  The world outside the program.
  \<^item> \<open>Path\<close>: how pathlib parses the text of a folder path on this platform.
  \<^item> \<open>iterdir\<close>: what the loop \<open>for file in folder.iterdir(): if file.is_file(): ...\<close>
    gets from the file system: the entries it processes, in enumeration order, and the
    exception, if any, that ends the iteration after them (raised by the listing
    itself, then with no entry before it, or by a later file-system call).
  \<^item> \<open>is_file\<close>: whether an entry is a regular file.
  \<^item> \<open>flavour\<close>: the pathlib flavour of the platform.
  \<^item> \<open>launch\<close>: what the external tool does with a command line.
\<close>

record env =
  Path :: "string \<Rightarrow> path"
  iterdir :: "path \<Rightarrow> path list \<times> exn option"
  is_file :: "path \<Rightarrow> bool"
  flavour :: flavour
  launch :: "string list \<Rightarrow> proc_outcome"

datatype level = INFO | WARNING | ERROR

datatype colour = COLOR_SUCCESS | COLOR_ERROR | COLOR_WARNING

text \<open>
  Everything the programs do to the outside, in the order they do it: a record of the
  \<open>logging\<close> module, a run of the external tool, the Qt signals of
  \<open>ProcessingWorker\<close> (merger.py), and the widget and queue calls of
  \<open>SubtitleMergerApp.processing_thread\<close> (mergerV3.py; the progress bar's fraction
  \<open>i / total\<close> is kept as the pair).
\<close>

datatype effect =
    Logging level string
  | SubprocessRun "string list"
  | Progress nat nat string
  | LogMessage string
  | Summary nat nat
  | Finished
  | ProgressBarSet nat nat
  | ProgressLabel string
  | LogQueuePut string "colour option"
  | SetUiState bool


section \<open>Folder analysis\<close>

text \<open>
  The state of the loop of \<open>analyze_folder\<close>: \<open>video_file\<close>, \<open>subtitle_files\<close>
  and the records written to the log so far.
\<close>

type_synonym scan_state = "path option \<times> path list \<times> effect list"

text \<open>merger.py, the body of the loop of \<open>analyze_folder\<close>.\<close>

definition multiple_videos_msg :: "path \<Rightarrow> path \<Rightarrow> string" where
  "multiple_videos_msg folder video_file =
     ''Multiple videos in '' @ name folder @ ''. Using '' @ apostrophe @ name video_file
       @ apostrophe @ ''.''"

definition analyze_step :: "env \<Rightarrow> path \<Rightarrow> scan_state \<Rightarrow> path \<Rightarrow> scan_state" where
  "analyze_step env folder st file =
     (case st of (video_file, subtitle_files, log) \<Rightarrow>
        if is_file env file then
          if lower (suffix file) \<in> set VIDEO_EXTENSIONS then
            (case video_file of
               Some v \<Rightarrow>
                 (video_file, subtitle_files,
                  log @ [Logging WARNING (multiple_videos_msg folder v)])
             | None \<Rightarrow> (Some file, subtitle_files, log))
          else if lower (suffix file) = SUBTITLE_EXTENSION then
            (video_file, subtitle_files @ [file], log)
          else st
        else st)"

text \<open>
  merger.py, \<open>analyze_folder\<close>: only \<open>FileNotFoundError\<close> is caught; any other
  exception leaves the function.
\<close>

definition could_not_access_msg :: "string \<Rightarrow> string" where
  "could_not_access_msg folder_path =
     ''Could not access folder: '' @ folder_path @ ''. It may have been moved or deleted.''"

fun analyze_except :: "string \<Rightarrow> scan_state \<Rightarrow> exn option
    \<Rightarrow> effect list \<times> (exn + path option \<times> path list)" where
  "analyze_except folder_path (video_file, subtitle_files, log) None =
     (log, Inr (video_file, subtitle_files))"
| "analyze_except folder_path (video_file, subtitle_files, log) (Some (FileNotFoundError m)) =
     (log @ [Logging ERROR (could_not_access_msg folder_path)], Inr (None, []))"
| "analyze_except folder_path (video_file, subtitle_files, log) (Some e) =
     (log, Inl e)"

definition analyze_folder :: "env \<Rightarrow> string
    \<Rightarrow> effect list \<times> (exn + path option \<times> path list)" where
  "analyze_folder env folder_path =
     (let folder = Path env folder_path
      in case iterdir env folder of (files, raised) \<Rightarrow>
           analyze_except folder_path
             (foldl (analyze_step env folder) (None, [], []) files) raised)"

text \<open>mergerV3.py, \<open>analyze_folder\<close>: every exception is caught, and what the loop
  had found when it was raised is returned.\<close>

definition multiple_videos_msg_V3 :: "env \<Rightarrow> string \<Rightarrow> string" where
  "multiple_videos_msg_V3 env folder_path =
     ''Multiple videos found in '' @ name (Path env folder_path) @ '', using first found.''"

definition analyze_step_V3 :: "env \<Rightarrow> string \<Rightarrow> scan_state \<Rightarrow> path \<Rightarrow> scan_state" where
  "analyze_step_V3 env folder_path st file =
     (case st of (video_file, subtitle_files, log) \<Rightarrow>
        if is_file env file then
          if lower (suffix file) \<in> set VIDEO_EXTENSIONS then
            (case video_file of
               Some v \<Rightarrow>
                 (video_file, subtitle_files,
                  log @ [Logging WARNING (multiple_videos_msg_V3 env folder_path)])
             | None \<Rightarrow> (Some file, subtitle_files, log))
          else if lower (suffix file) = SUBTITLE_EXTENSION then
            (video_file, subtitle_files @ [file], log)
          else st
        else st)"

definition could_not_analyze_msg :: "string \<Rightarrow> exn \<Rightarrow> string" where
  "could_not_analyze_msg folder_path e =
     ''Could not analyze folder '' @ folder_path @ '': '' @ str_exn e"

fun analyze_except_V3 :: "string \<Rightarrow> scan_state \<Rightarrow> exn option
    \<Rightarrow> effect list \<times> (exn + path option \<times> path list)" where
  "analyze_except_V3 folder_path (video_file, subtitle_files, log) None =
     (log, Inr (video_file, subtitle_files))"
| "analyze_except_V3 folder_path (video_file, subtitle_files, log) (Some e) =
     (log @ [Logging ERROR (could_not_analyze_msg folder_path e)],
      Inr (video_file, subtitle_files))"

definition analyze_folder_V3 :: "env \<Rightarrow> string
    \<Rightarrow> effect list \<times> (exn + path option \<times> path list)" where
  "analyze_folder_V3 env folder_path =
     (case iterdir env (Path env folder_path) of (files, raised) \<Rightarrow>
        analyze_except_V3 folder_path
          (foldl (analyze_step_V3 env folder_path) (None, [], []) files) raised)"


section \<open>Merging\<close>

text \<open>
  \<open>subprocess.run(cmd, check=True, capture_output=True, text=True, ...)\<close>: it returns
  the completed process when the tool exits with status 0, raises
  \<open>CalledProcessError\<close> with the status and the captured output when the status is not
  0, and raises what the launch raised otherwise. The captured output is decoded
  before the status is looked at, so \<open>UnicodeDecodeError\<close> is raised whatever the
  status is.
\<close>

datatype run_outcome =
    Completed string string
  | CalledProcessError int string string
  | Raised exn

definition subprocess_run :: "env \<Rightarrow> string list \<Rightarrow> run_outcome" where
  "subprocess_run env cmd =
     (case launch env cmd of
        Exited returncode out err \<Rightarrow>
          if returncode = 0 then Completed out err else CalledProcessError returncode out err
      | Undecodable returncode m \<Rightarrow> Raised (UnicodeDecodeError m)
      | LaunchRaised e \<Rightarrow> Raised e)"

text \<open>The command line, built by both programs with the same statements.\<close>

definition build_cmd :: "path \<Rightarrow> path list \<Rightarrow> path \<Rightarrow> string list" where
  "build_cmd video_file subtitle_files output_path =
     foldl (\<lambda>cmd sub_file. cmd @ [''--language'', ''0:eng'', str_path sub_file])
       [MKVMERGE_PATH, ''-o'', str_path output_path, str_path video_file]
       subtitle_files"

definition executing_msg :: "string list \<Rightarrow> string" where
  "executing_msg cmd = ''Executing command: '' @ join '' '' cmd"

definition not_found_msg :: string where
  "not_found_msg =
     ''mkvmerge not found. Ensure MKVToolNix is installed and in your system''
       @ apostrophe @ ''s PATH.''"

text \<open>
  merger.py, the \<open>try\<close> statement of \<open>merge_subtitles\<close>: the result of the body, then
  the three handlers in their order. \<open>logging.exception\<close> writes its record at level
  ERROR (the traceback it appends is left out).
\<close>

fun merge_try :: "path \<Rightarrow> run_outcome \<Rightarrow> effect list \<times> (exn + bool \<times> string option)" where
  "merge_try output_path (Completed out err) =
     ([Logging INFO (''SUCCESS: Merged to '' @ apostrophe @ name output_path @ apostrophe @ ''.'')]
        @ (if out \<noteq> [] then [Logging INFO (''mkvmerge output:'' @ newline @ out)] else []),
      Inr (True, None))"
| "merge_try output_path (CalledProcessError returncode out err) =
     (let error_msg = ''mkvmerge error (Code '' @ str_int returncode @ ''): '' @ err
      in ([Logging ERROR error_msg], Inr (False, Some error_msg)))"
| "merge_try output_path (Raised (FileNotFoundError m)) =
     ([Logging ERROR not_found_msg], Inr (False, Some not_found_msg))"
| "merge_try output_path (Raised e) =
     (let error_msg = ''Unexpected error: '' @ str_exn e
      in ([Logging ERROR error_msg], Inr (False, Some error_msg)))"

definition merge_subtitles :: "env \<Rightarrow> path \<Rightarrow> path list \<Rightarrow> path
    \<Rightarrow> effect list \<times> (exn + bool \<times> string option)" where
  "merge_subtitles env video_file subtitle_files output_path =
     (let cmd = build_cmd video_file subtitle_files output_path
      in case merge_try output_path (subprocess_run env cmd) of (log, r) \<Rightarrow>
           ([Logging INFO (executing_msg cmd), SubprocessRun cmd] @ log, r))"

text \<open>
  mergerV3.py, \<open>merge_subtitles\<close>: one handler,
  \<open>error_msg = getattr(e, 'stderr', str(e))\<close>. Of the exceptions here only
  \<open>CalledProcessError\<close> has the attribute \<open>stderr\<close>.
\<close>

fun merge_try_V3 :: "run_outcome \<Rightarrow> effect list \<times> (exn + bool \<times> string option)" where
  "merge_try_V3 (Completed out err) = ([], Inr (True, None))"
| "merge_try_V3 (CalledProcessError returncode out err) =
     ([Logging ERROR (''Merge failed: '' @ err)], Inr (False, Some err))"
| "merge_try_V3 (Raised e) =
     ([Logging ERROR (''Merge failed: '' @ str_exn e)], Inr (False, Some (str_exn e)))"

definition merge_subtitles_V3 :: "env \<Rightarrow> path \<Rightarrow> path list \<Rightarrow> path
    \<Rightarrow> effect list \<times> (exn + bool \<times> string option)" where
  "merge_subtitles_V3 env video_file subtitle_files output_path =
     (let cmd = build_cmd video_file subtitle_files output_path
      in case merge_try_V3 (subprocess_run env cmd) of (log, r) \<Rightarrow>
           ([Logging INFO (executing_msg cmd), SubprocessRun cmd] @ log, r))"

text \<open>
  The output path, computed by both programs as
  \<open>video.with_stem(video.stem + CONFIG['OUTPUT_SUFFIX']).with_suffix('.mkv')\<close>.
\<close>

definition output_file :: "env \<Rightarrow> path \<Rightarrow> exn + path" where
  "output_file env video_file =
     (case with_stem (flavour env) video_file (stem video_file @ OUTPUT_SUFFIX) of
        Inl e \<Rightarrow> Inl e
      | Inr p \<Rightarrow> with_suffix (flavour env) p ''.mkv'')"


section \<open>The batch run of merger.py\<close>

definition WARNING_SIGN :: string where
  "WARNING_SIGN = [CHR 0xE2, CHR 0x9A, CHR 0xA0, CHR 0xEF, CHR 0xB8, CHR 0x8F]"

definition CHECK_MARK :: string where
  "CHECK_MARK = [CHR 0xE2, CHR 0x9C, CHR 0x85]"

definition CROSS_MARK :: string where
  "CROSS_MARK = [CHR 0xE2, CHR 0x9D, CHR 0x8C]"

definition analyzing_msg :: "nat \<Rightarrow> nat \<Rightarrow> string \<Rightarrow> string" where
  "analyzing_msg current_folder_index total_folders folder_path =
     newline @ ''--- ['' @ str_nat current_folder_index @ ''/'' @ str_nat total_folders
       @ ''] Analyzing: '' @ folder_path @ '' ---''"

definition no_video_msg :: string where
  "no_video_msg = WARNING_SIGN @ '' WARNING: No video file found.''"

definition no_subtitles_msg :: string where
  "no_subtitles_msg = WARNING_SIGN @ '' WARNING: No subtitle files (.srt) found.''"

definition created_msg :: "path \<Rightarrow> string" where
  "created_msg out = CHECK_MARK @ '' SUCCESS: Created '' @ apostrophe @ name out @ apostrophe"

text \<open>\<open>error or 'Unknown reason.'\<close>: \<open>None\<close> and the empty string are both false.\<close>

definition failed_msg :: "string option \<Rightarrow> string" where
  "failed_msg error =
     CROSS_MARK @ '' ERROR: Failed to merge. ''
       @ (case error of None \<Rightarrow> ''Unknown reason.''
          | Some s \<Rightarrow> if s = [] then ''Unknown reason.'' else s)"

text \<open>
  \<open>ProcessingWorker.run\<close>, the body of the loop after the call of \<open>analyze_folder\<close>:
  the effects and either the exception that leaves the body or the new
  \<open>success_count\<close>.
\<close>

fun run_merge :: "env \<Rightarrow> path option \<Rightarrow> path list \<Rightarrow> nat \<Rightarrow> effect list \<times> (exn + nat)" where
  "run_merge env None subtitle_files success_count =
     ([LogMessage no_video_msg], Inr success_count)"
| "run_merge env (Some video_file) subtitle_files success_count =
     (if subtitle_files = [] then ([LogMessage no_subtitles_msg], Inr success_count)
      else
        let found = [LogMessage (''Video: '' @ name video_file),
                     LogMessage (''Subtitles: '' @ str_nat (length subtitle_files)
                                   @ '' file(s) found.'')]
        in case output_file env video_file of
             Inl e \<Rightarrow> (found, Inl e)
           | Inr out \<Rightarrow>
               (case merge_subtitles env video_file subtitle_files out of
                  (log, Inl e) \<Rightarrow> (found @ log, Inl e)
                | (log, Inr (success, error)) \<Rightarrow>
                    if success
                    then (found @ log @ [LogMessage (created_msg out)], Inr (success_count + 1))
                    else (found @ log @ [LogMessage (failed_msg error)], Inr success_count)))"

definition run_body :: "env \<Rightarrow> nat \<Rightarrow> nat \<Rightarrow> string \<Rightarrow> nat \<Rightarrow> effect list \<times> (exn + nat)" where
  "run_body env total_folders i folder_path success_count =
     (let current_folder_index = i + 1;
          started = [Progress current_folder_index total_folders (name (Path env folder_path)),
                     LogMessage (analyzing_msg current_folder_index total_folders folder_path)]
      in case analyze_folder env folder_path of
           (log, Inl e) \<Rightarrow> (started @ log, Inl e)
         | (log, Inr (video_file, subtitle_files)) \<Rightarrow>
             (case run_merge env video_file subtitle_files success_count of
                (later, r) \<Rightarrow> (started @ log @ later, r)))"

fun run_loop :: "env \<Rightarrow> nat \<Rightarrow> nat \<Rightarrow> string list \<Rightarrow> nat \<Rightarrow> effect list \<times> (exn + nat)" where
  "run_loop env total_folders i [] success_count = ([], Inr success_count)"
| "run_loop env total_folders i (folder_path # rest) success_count =
     (case run_body env total_folders i folder_path success_count of
        (first, Inl e) \<Rightarrow> (first, Inl e)
      | (first, Inr c) \<Rightarrow>
          (case run_loop env total_folders (i + 1) rest c of
             (later, r) \<Rightarrow> (first @ later, r)))"

text \<open>
  \<open>ProcessingWorker.run\<close>: no exception is caught, so one that leaves the loop leaves
  \<open>run\<close> before \<open>summary\<close> and \<open>finished\<close> are emitted.
\<close>

definition run :: "env \<Rightarrow> string list \<Rightarrow> effect list \<times> (exn + unit)" where
  "run env folders =
     (let total_folders = length folders
      in case run_loop env total_folders 0 folders 0 of
           (trace, Inl e) \<Rightarrow> (trace, Inl e)
         | (trace, Inr success_count) \<Rightarrow>
             (trace @ [Summary success_count total_folders, Finished], Inr ()))"


section \<open>The batch run of mergerV3.py\<close>

text \<open>The three marks as the bytes of mergerV3.py have them.\<close>

definition WARNING_SIGN_V3 :: string where
  "WARNING_SIGN_V3 =
     [CHR 0xE2, CHR 0x80, CHR 0x9A, CHR 0xC3, CHR 0xB6, CHR 0xE2, CHR 0x80, CHR 0xA0,
      CHR 0xC3, CHR 0x94, CHR 0xE2, CHR 0x88, CHR 0x8F, CHR 0xC3, CHR 0xA8]"

definition CHECK_MARK_V3 :: string where
  "CHECK_MARK_V3 = [CHR 0xE2, CHR 0x80, CHR 0x9A, CHR 0xC3, CHR 0xBA, CHR 0xC3, CHR 0x96]"

definition CROSS_MARK_V3 :: string where
  "CROSS_MARK_V3 = [CHR 0xE2, CHR 0x80, CHR 0x9A, CHR 0xC3, CHR 0xB9, CHR 0xC3, CHR 0xA5]"

definition processing_msg :: "nat \<Rightarrow> nat \<Rightarrow> string \<Rightarrow> string" where
  "processing_msg i total' folder_name =
     ''Processing '' @ str_nat (i + 1) @ ''/'' @ str_nat total' @ '': '' @ folder_name"

definition analyzing_msg_V3 :: "string \<Rightarrow> string" where
  "analyzing_msg_V3 folder_path = newline @ ''--- Analyzing: '' @ folder_path @ '' ---''"

definition skipped_msg_V3 :: string where
  "skipped_msg_V3 = WARNING_SIGN_V3 @ '' WARNING: '' @ ''No video or subtitles found.''"

definition created_msg_V3 :: "path \<Rightarrow> string" where
  "created_msg_V3 out =
     CHECK_MARK_V3 @ '' SUCCESS: Created '' @ apostrophe @ name out @ apostrophe"

definition failed_msg_V3 :: "string option \<Rightarrow> string" where
  "failed_msg_V3 error =
     CROSS_MARK_V3 @ '' ERROR: '' @ (case error of None \<Rightarrow> ''None'' | Some s \<Rightarrow> s)"

definition summary_msg :: "nat \<Rightarrow> nat \<Rightarrow> string" where
  "summary_msg success_count total' =
     ''Complete! '' @ CHECK_MARK_V3 @ '' Processed '' @ str_nat success_count @ ''/''
       @ str_nat total' @ '' folders successfully.''"

text \<open>\<open>processing_thread\<close>, the body of the loop after the call of \<open>analyze_folder\<close>.\<close>

definition thread_merge :: "env \<Rightarrow> path option \<Rightarrow> path list \<Rightarrow> nat \<Rightarrow> effect list \<times> (exn + nat)" where
  "thread_merge env video subs success_count =
     (case video of
        None \<Rightarrow> ([LogQueuePut skipped_msg_V3 (Some COLOR_WARNING)], Inr success_count)
      | Some v \<Rightarrow>
          if subs = [] then ([LogQueuePut skipped_msg_V3 (Some COLOR_WARNING)], Inr success_count)
          else
            (case output_file env v of
               Inl e \<Rightarrow> ([], Inl e)
             | Inr out \<Rightarrow>
                 (case merge_subtitles_V3 env v subs out of
                    (log, Inl e) \<Rightarrow> (log, Inl e)
                  | (log, Inr (success, error)) \<Rightarrow>
                      if success
                      then (log @ [LogQueuePut (created_msg_V3 out) (Some COLOR_SUCCESS)],
                            Inr (success_count + 1))
                      else (log @ [LogQueuePut (failed_msg_V3 error) (Some COLOR_ERROR)],
                            Inr success_count))))"

text \<open>
  The body runs only for a folder of the list, so \<open>total\<close> is not 0 where
  \<open>i / total\<close> is computed; the variable \<open>total\<close> is written \<open>total'\<close>.
\<close>

definition thread_body :: "env \<Rightarrow> nat \<Rightarrow> nat \<Rightarrow> string \<Rightarrow> nat \<Rightarrow> effect list \<times> (exn + nat)" where
  "thread_body env total' i folder_path success_count =
     (let started = [ProgressBarSet i total',
                     ProgressLabel (processing_msg i total' (name (Path env folder_path))),
                     LogQueuePut (analyzing_msg_V3 folder_path) None]
      in case analyze_folder_V3 env folder_path of
           (log, Inl e) \<Rightarrow> (started @ log, Inl e)
         | (log, Inr (video, subs)) \<Rightarrow>
             (case thread_merge env video subs success_count of
                (later, r) \<Rightarrow> (started @ log @ later, r)))"

fun thread_loop :: "env \<Rightarrow> nat \<Rightarrow> nat \<Rightarrow> string list \<Rightarrow> nat \<Rightarrow> effect list \<times> (exn + nat)" where
  "thread_loop env total' i [] success_count = ([], Inr success_count)"
| "thread_loop env total' i (folder_path # rest) success_count =
     (case thread_body env total' i folder_path success_count of
        (first, Inl e) \<Rightarrow> (first, Inl e)
      | (first, Inr c) \<Rightarrow>
          (case thread_loop env total' (i + 1) rest c of
             (later, r) \<Rightarrow> (first @ later, r)))"

definition processing_thread :: "env \<Rightarrow> string list \<Rightarrow> effect list \<times> (exn + unit)" where
  "processing_thread env folders =
     (let total' = length folders
      in case thread_loop env total' 0 folders 0 of
           (trace, Inl e) \<Rightarrow> (trace, Inl e)
         | (trace, Inr success_count) \<Rightarrow>
             (trace @ [ProgressBarSet 1 1,
                       ProgressLabel (summary_msg success_count total'),
                       LogQueuePut (newline @ summary_msg success_count total') (Some COLOR_SUCCESS),
                       SetUiState False],
              Inr ()))"


section \<open>A concrete file system\<close>

text \<open>
  A POSIX file system with one parent directory: \<open>/v/ep1\<close> holds \<open>a.mp4\<close>, \<open>b.mkv\<close>
  and \<open>a.srt\<close>, enumerated in that order; \<open>/v/ep2\<close> may not be read; \<open>/v/ep3\<close> holds
  \<open>c.MKV\<close>, \<open>c.en.srt\<close>, \<open>notes.txt\<close> and \<open>c.fr.SRT\<close>; \<open>/v/ep4\<close> is empty;
  \<open>/v/ep5\<close> holds \<open>d.mp4\<close> alone; any other folder does not exist. The tool exits
  with status 0.
\<close>

definition example_Path :: "string \<Rightarrow> path" where
  "example_Path s =
     (let i = nat (rfind s CHR ''/'' + 1) in \<lparr>parent = take i s, name = drop i s\<rparr>)"

definition ep1_files :: "path list" where
  "ep1_files =
     [\<lparr>parent = ''/v/ep1/'', name = ''a.mp4''\<rparr>,
      \<lparr>parent = ''/v/ep1/'', name = ''b.mkv''\<rparr>,
      \<lparr>parent = ''/v/ep1/'', name = ''a.srt''\<rparr>]"

definition ep3_files :: "path list" where
  "ep3_files =
     [\<lparr>parent = ''/v/ep3/'', name = ''c.MKV''\<rparr>,
      \<lparr>parent = ''/v/ep3/'', name = ''c.en.srt''\<rparr>,
      \<lparr>parent = ''/v/ep3/'', name = ''notes.txt''\<rparr>,
      \<lparr>parent = ''/v/ep3/'', name = ''c.fr.SRT''\<rparr>]"

definition example_iterdir :: "path \<Rightarrow> path list \<times> exn option" where
  "example_iterdir folder =
     (if str_path folder = ''/v/ep1'' then (ep1_files, None)
      else if str_path folder = ''/v/ep2'' then
        ([], Some (PermissionError ''[Errno 13] Permission denied''))
      else if str_path folder = ''/v/ep3'' then (ep3_files, None)
      else if str_path folder = ''/v/ep4'' then ([], None)
      else if str_path folder = ''/v/ep5'' then
        ([\<lparr>parent = ''/v/ep5/'', name = ''d.mp4''\<rparr>], None)
      else ([], Some (FileNotFoundError ''[Errno 2] No such file or directory'')))"

definition example_env :: env where
  "example_env =
     \<lparr>Path = example_Path, iterdir = example_iterdir, is_file = (\<lambda>p. True),
      flavour = Posix, launch = (\<lambda>cmd. Exited 0 [] [])\<rparr>"


definition missing_tool_env :: env where
  "missing_tool_env =
     example_env\<lparr>launch := (\<lambda>cmd. LaunchRaised (FileNotFoundError ''[WinError 2] The system cannot find the file specified''))\<rparr>"





section \<open>Notions of the specification\<close>

text \<open>
  A video candidate and a subtitle candidate of the specification: a regular file whose
  extension, compared without regard to case, is one of the video extensions, or is the
  subtitle extension.
\<close>

definition is_video :: "env \<Rightarrow> path \<Rightarrow> bool" where
  "is_video env file = (is_file env file \<and> lower (suffix file) \<in> set VIDEO_EXTENSIONS)"

definition is_subtitle :: "env \<Rightarrow> path \<Rightarrow> bool" where
  "is_subtitle env file = (is_file env file \<and> lower (suffix file) = SUBTITLE_EXTENSION)"

text \<open>
  The command line as the specification writes it:
  \<open><tool-path> -o <output-path> <video-path> [--language 0:<tag> <subtitle-path>]*\<close>.
\<close>

definition spec_cmd :: "path \<Rightarrow> path list \<Rightarrow> path \<Rightarrow> string list" where
  "spec_cmd video subtitles output_path =
     [MKVMERGE_PATH, ''-o'', str_path output_path, str_path video]
       @ concat (map (\<lambda>sub. [''--language'', ''0:eng'', str_path sub]) subtitles)"

text \<open>The command lines with which a trace runs the external tool.\<close>

fun commands_run :: "effect list \<Rightarrow> string list list" where
  "commands_run [] = []"
| "commands_run (SubprocessRun cmd # es) = cmd # commands_run es"
| "commands_run (e # es) = commands_run es"

text \<open>Whether a record of the log has a text in it.\<close>

fun mentions :: "string \<Rightarrow> effect \<Rightarrow> bool" where
  "mentions t (Logging l m) = contains m t"
| "mentions t e = False"

text \<open>The summaries and the progress events that a trace of merger.py emits.\<close>

fun summaries :: "effect list \<Rightarrow> (nat \<times> nat) list" where
  "summaries [] = []"
| "summaries (Summary s t # es) = (s, t) # summaries es"
| "summaries (e # es) = summaries es"

fun progress_events :: "effect list \<Rightarrow> (nat \<times> nat \<times> string) list" where
  "progress_events [] = []"
| "progress_events (Progress i t n # es) = (i, t, n) # progress_events es"
| "progress_events (e # es) = progress_events es"


text \<open>Whether an effect is a record of the \<open>logging\<close> module.\<close>

fun is_logging :: "effect \<Rightarrow> bool" where
  "is_logging (Logging l m) = True"
| "is_logging e = False"

text \<open>Whether a name holds no path separator of the platform, as every directory
  entry does.\<close>

definition plain_name :: "env \<Rightarrow> path \<Rightarrow> bool" where
  "plain_name env p = (\<forall>c \<in> set (name p). c \<notin> set (seps (flavour env)))"

text \<open>
  A folder is readable when its enumeration ends normally or with
  \<open>FileNotFoundError\<close>, the one exception that \<open>analyze_folder\<close> of merger.py
  handles, and every entry seen has a plain name.
\<close>

definition readable :: "env \<Rightarrow> string \<Rightarrow> bool" where
  "readable env f =
     (case iterdir env (Path env f) of
        (files, None) \<Rightarrow> list_all (plain_name env) files
      | (files, Some (FileNotFoundError m)) \<Rightarrow> list_all (plain_name env) files
      | (files, Some e) \<Rightarrow> False)"


section \<open>Strings and paths: lemmas\<close>

text \<open>
  A name whose extension is written with the Kelvin sign is a video for the code:
  of \<open>.M\<close>, U+212A, \<open>V\<close> the lower case is \<open>.mkv\<close>.
\<close>

lemma lower_kelvin_sign:
  "lower (''.M'' @ KELVIN_SIGN @ ''V'') = ''.mkv''
 \<and> is_video example_env \<lparr>parent = ''/v/ep1/'', name = ''x.M'' @ KELVIN_SIGN @ ''V''\<rparr>"
  by code_simp



lemma rfind_last: "c \<notin> set ys \<Longrightarrow> rfind (xs @ c # ys) c = int (length xs)"
proof -
  assume a: "c \<notin> set ys"
  then have "\<forall>x \<in> set (rev ys). x \<noteq> c" by auto
  then have "takeWhile (\<lambda>x. x \<noteq> c) (rev ys @ c # rev xs) = rev ys"
    by (simp add: takeWhile_tail)
  then show ?thesis by (simp add: rfind_def)
qed

lemma rfind_absent: "c \<notin> set s \<Longrightarrow> rfind s c = - 1"
  by (simp add: rfind_def)

lemma suffix_split:
  assumes "suffix p \<noteq> []"
  shows "\<exists>st ext. name p = st @ CHR ''.'' # ext \<and> st \<noteq> [] \<and> ext \<noteq> [] \<and> CHR ''.'' \<notin> set ext
           \<and> suffix p = CHR ''.'' # ext \<and> stem p = st"
proof -
  have mem: "CHR ''.'' \<in> set (name p)"
  proof (rule ccontr)
    assume "CHR ''.'' \<notin> set (name p)"
    then have "suffix p = []" by (simp add: suffix_def rfind_absent)
    with assms show False by simp
  qed
  then obtain st ext where split: "name p = st @ CHR ''.'' # ext" and last: "CHR ''.'' \<notin> set ext"
    using split_list_last by fastforce
  have r: "rfind (name p) CHR ''.'' = int (length st)"
    using split last by (simp add: rfind_last)
  have rng: "0 < length st \<and> ext \<noteq> []"
    using assms r split by (auto simp: suffix_def Let_def split: if_splits)
  have "suffix p = CHR ''.'' # ext" "stem p = st"
    using r rng split by (auto simp: suffix_def stem_def Let_def)
  with split last rng show ?thesis by auto
qed

lemma drop_length_append: "drop (length xs) (xs @ ys) = ys"
  by simp

lemma not_sep: "c \<in> set (OUTPUT_SUFFIX @ ''.mkv'') \<Longrightarrow> c \<notin> set (seps fl)"
  by (cases fl) (auto simp: OUTPUT_SUFFIX_def)

lemma output_file_of_suffixed:
  assumes suf: "suffix v \<noteq> []" and valid: "\<forall>c \<in> set (name v). c \<notin> set (seps (flavour env))"
  shows "output_file env v = Inr \<lparr>parent = parent v, name = stem v @ OUTPUT_SUFFIX @ ''.mkv''\<rparr>"
proof -
  from suffix_split [OF suf] obtain st ext where
    nm: "name v = st @ CHR ''.'' # ext" and st: "st \<noteq> []" and ext: "ext \<noteq> []"
    and dot: "CHR ''.'' \<notin> set ext" and sv: "suffix v = CHR ''.'' # ext" and stv: "stem v = st"
    by blast
  define n1 where "n1 = (st @ OUTPUT_SUFFIX) @ CHR ''.'' # ext"
  have n1_seps: "\<forall>c \<in> set n1. c \<notin> set (seps (flavour env))"
    using valid nm not_sep [of _ "flavour env"] by (auto simp: n1_def)
  have n1_ne: "n1 \<noteq> [] \<and> n1 \<noteq> ''.''" using st by (cases st) (auto simp: n1_def)
  have w1: "with_stem (flavour env) v (stem v @ OUTPUT_SUFFIX) = Inr (v\<lparr>name := n1\<rparr>)"
    using n1_seps n1_ne nm by (simp add: with_stem_def with_name_def sv stv n1_def)
  have r: "rfind n1 CHR ''.'' = int (length (st @ OUTPUT_SUFFIX))"
    unfolding n1_def using dot by (rule rfind_last)
  have r_nat: "nat (rfind n1 CHR ''.'') = length (st @ OUTPUT_SUFFIX)"
    using r by simp
  have r_rng: "0 < rfind n1 CHR ''.'' \<and> rfind n1 CHR ''.'' < int (length n1) - 1"
  proof -
    have a: "Suc 0 \<le> length st" using st by (cases st) simp_all
    have b: "Suc 0 \<le> length ext" using ext by (cases ext) simp_all
    have c: "length n1 = length (st @ OUTPUT_SUFFIX) + 1 + length ext" by (simp add: n1_def)
    have d: "length (st @ OUTPUT_SUFFIX) = length st + length OUTPUT_SUFFIX" by simp
    show ?thesis unfolding r c d using a b by linarith
  qed
  have dr: "drop (length (st @ OUTPUT_SUFFIX)) n1 = CHR ''.'' # ext"
    unfolding n1_def by (rule drop_length_append)
  have nm1: "name (v\<lparr>name := n1\<rparr>) = n1" by simp
  have s1: "suffix (v\<lparr>name := n1\<rparr>) = CHR ''.'' # ext"
    unfolding suffix_def Let_def nm1 using r_rng r_nat dr by simp
  have c1: "\<not> (\<exists>c \<in> set ''.mkv''. c \<in> set (seps (flavour env)))"
    by (cases "flavour env") auto
  have c2: "startswith ''.mkv'' ''.''" by (simp add: startswith_def)
  have c3: "take (length n1 - length (CHR ''.'' # ext)) n1 = st @ OUTPUT_SUFFIX"
    by (simp add: n1_def)
  have w2: "with_suffix (flavour env) (v\<lparr>name := n1\<rparr>) ''.mkv'' = Inr (v\<lparr>name := (st @ OUTPUT_SUFFIX) @ ''.mkv''\<rparr>)"
    unfolding with_suffix_def Let_def nm1 s1 c3 using c1 c2 n1_ne by simp
  have rec: "v\<lparr>name := (st @ OUTPUT_SUFFIX) @ ''.mkv''\<rparr> = \<lparr>parent = parent v, name = st @ OUTPUT_SUFFIX @ ''.mkv''\<rparr>"
    by simp
  have w1': "with_stem (flavour env) v (st @ OUTPUT_SUFFIX) = Inr (v\<lparr>name := n1\<rparr>)"
    using w1 by (simp only: stv)
  show ?thesis unfolding output_file_def stv w1' by (simp only: sum.case w2 rec)
qed


section \<open>The loop of the folder analysis\<close>

lemma srt_not_video: "SUBTITLE_EXTENSION \<notin> set VIDEO_EXTENSIONS"
  by (simp add: SUBTITLE_EXTENSION_def VIDEO_EXTENSIONS_def)

lemma analyze_step_cases:
  "analyze_step env folder (vo, subs, log) file =
     (if is_video env file then
        (case vo of
           Some v \<Rightarrow> (vo, subs, log @ [Logging WARNING (multiple_videos_msg folder v)])
         | None \<Rightarrow> (Some file, subs, log))
      else if is_subtitle env file then (vo, subs @ [file], log)
      else (vo, subs, log))"
  by (simp add: analyze_step_def is_video_def is_subtitle_def)

lemma analyze_fold_Some:
  "foldl (analyze_step env folder) (Some v, subs, log) files =
     (Some v, subs @ filter (is_subtitle env) files,
      log @ map (\<lambda>f. Logging WARNING (multiple_videos_msg folder v)) (filter (is_video env) files))"
proof (induction files arbitrary: subs log)
  case Nil
  show ?case by simp
next
  case (Cons f fs)
  have nv: "is_video env f \<Longrightarrow> \<not> is_subtitle env f"
    using srt_not_video by (auto simp: is_video_def is_subtitle_def)
  show ?case
    using nv by (simp add: analyze_step_cases Cons.IH)
qed

lemma analyze_fold_None:
  "foldl (analyze_step env folder) (None, subs, log) files =
     (case filter (is_video env) files of
        [] \<Rightarrow> (None, subs @ filter (is_subtitle env) files, log)
      | v # others \<Rightarrow>
          (Some v, subs @ filter (is_subtitle env) files,
           log @ map (\<lambda>f. Logging WARNING (multiple_videos_msg folder v)) others))"
proof (induction files arbitrary: subs log)
  case Nil
  show ?case by simp
next
  case (Cons f fs)
  have nv: "is_video env f \<Longrightarrow> \<not> is_subtitle env f"
    using srt_not_video by (auto simp: is_video_def is_subtitle_def)
  show ?case
    using nv by (simp add: analyze_step_cases Cons.IH analyze_fold_Some split: list.split)
qed

lemma analyze_step_V3_cases:
  "analyze_step_V3 env folder_path (vo, subs, log) file =
     (if is_video env file then
        (case vo of
           Some v \<Rightarrow> (vo, subs, log @ [Logging WARNING (multiple_videos_msg_V3 env folder_path)])
         | None \<Rightarrow> (Some file, subs, log))
      else if is_subtitle env file then (vo, subs @ [file], log)
      else (vo, subs, log))"
  by (simp add: analyze_step_V3_def is_video_def is_subtitle_def)

lemma analyze_fold_V3_Some:
  "foldl (analyze_step_V3 env folder_path) (Some v, subs, log) files =
     (Some v, subs @ filter (is_subtitle env) files,
      log @ map (\<lambda>f. Logging WARNING (multiple_videos_msg_V3 env folder_path)) (filter (is_video env) files))"
proof (induction files arbitrary: subs log)
  case Nil
  show ?case by simp
next
  case (Cons f fs)
  have nv: "is_video env f \<Longrightarrow> \<not> is_subtitle env f"
    using srt_not_video by (auto simp: is_video_def is_subtitle_def)
  show ?case
    using nv by (simp add: analyze_step_V3_cases Cons.IH)
qed

lemma analyze_fold_V3_None:
  "foldl (analyze_step_V3 env folder_path) (None, subs, log) files =
     (case filter (is_video env) files of
        [] \<Rightarrow> (None, subs @ filter (is_subtitle env) files, log)
      | v # others \<Rightarrow>
          (Some v, subs @ filter (is_subtitle env) files,
           log @ map (\<lambda>f. Logging WARNING (multiple_videos_msg_V3 env folder_path)) others))"
proof (induction files arbitrary: subs log)
  case Nil
  show ?case by simp
next
  case (Cons f fs)
  have nv: "is_video env f \<Longrightarrow> \<not> is_subtitle env f"
    using srt_not_video by (auto simp: is_video_def is_subtitle_def)
  show ?case
    using nv by (simp add: analyze_step_V3_cases Cons.IH analyze_fold_V3_Some split: list.split)
qed

lemma analyze_folder_complete:
  assumes "iterdir env (Path env folder_path) = (files, None)"
  shows "analyze_folder env folder_path =
     (case filter (is_video env) files of
        [] \<Rightarrow> ([], Inr (None, filter (is_subtitle env) files))
      | v # others \<Rightarrow>
          (replicate (length others) (Logging WARNING (multiple_videos_msg (Path env folder_path) v)),
           Inr (Some v, filter (is_subtitle env) files)))"
  using assms
  by (simp add: analyze_folder_def Let_def analyze_fold_None map_replicate_const split: list.split)

lemma analyze_folder_V3_result:
  assumes "iterdir env (Path env folder_path) = (files, raised)"
  shows "snd (analyze_folder_V3 env folder_path) =
     Inr (case filter (is_video env) files of [] \<Rightarrow> None | v # others \<Rightarrow> Some v,
          filter (is_subtitle env) files)"
  using assms
  by (cases raised) (simp_all add: analyze_folder_V3_def analyze_fold_V3_None split: list.split)

lemma analyze_folder_V3_complete:
  assumes "iterdir env (Path env folder_path) = (files, None)"
  shows "analyze_folder_V3 env folder_path =
     (case filter (is_video env) files of
        [] \<Rightarrow> ([], Inr (None, filter (is_subtitle env) files))
      | v # others \<Rightarrow>
          (replicate (length others) (Logging WARNING (multiple_videos_msg_V3 env folder_path)),
           Inr (Some v, filter (is_subtitle env) files)))"
  using assms
  by (simp add: analyze_folder_V3_def analyze_fold_V3_None map_replicate_const split: list.split)

lemma filter_head: "filter P xs = v # others \<Longrightarrow> P v"
proof -
  assume "filter P xs = v # others"
  then have "v \<in> set (filter P xs)" by simp
  then show "P v" by simp
qed

lemma analyze_except_video:
  assumes "snd (analyze_except folder_path (vo, subs, log) raised) = Inr (Some v, subs')"
  shows "vo = Some v"
proof (cases raised)
  case None
  with assms show ?thesis by simp
next
  case (Some e)
  with assms show ?thesis by (cases e) simp_all
qed

lemma first_video_is_video:
  assumes "(case filter (is_video env) files of [] \<Rightarrow> None | w # others \<Rightarrow> Some w) = Some v"
  shows "is_video env v"
proof (cases "filter (is_video env) files")
  case Nil
  with assms show ?thesis by simp
next
  case (Cons w others)
  with assms have "w = v" by simp
  with Cons show ?thesis using filter_head by fast
qed

lemma analyze_fold_video:
  "fst (foldl (analyze_step env folder) (None, [], []) files) =
     (case filter (is_video env) files of [] \<Rightarrow> None | w # others \<Rightarrow> Some w)"
  by (simp add: analyze_fold_None split: list.split)

lemma analyze_folder_video:
  assumes "snd (analyze_folder env folder_path) = Inr (Some v, subs)"
  shows "is_video env v"
proof -
  obtain files raised where it: "iterdir env (Path env folder_path) = (files, raised)"
    by (cases "iterdir env (Path env folder_path)")
  obtain vo ss lg where st:
    "foldl (analyze_step env (Path env folder_path)) (None, [], []) files = (vo, ss, lg)"
    by (cases "foldl (analyze_step env (Path env folder_path)) (None, [], []) files")
  have "snd (analyze_except folder_path (vo, ss, lg) raised) = Inr (Some v, subs)"
    using assms by (simp only: analyze_folder_def Let_def it st prod.case)
  then have "vo = Some v" by (rule analyze_except_video)
  moreover have "vo = (case filter (is_video env) files of [] \<Rightarrow> None | w # others \<Rightarrow> Some w)"
    using analyze_fold_video [of env "Path env folder_path" files] by (simp only: st fst_conv)
  ultimately show ?thesis using first_video_is_video [of env files v] by simp
qed

lemma analyze_folder_V3_video:
  assumes "snd (analyze_folder_V3 env folder_path) = Inr (Some v, subs)"
  shows "is_video env v"
proof -
  obtain files raised where it: "iterdir env (Path env folder_path) = (files, raised)"
    by (cases "iterdir env (Path env folder_path)")
  have "Inr (Some v, subs) =
      (Inr (case filter (is_video env) files of [] \<Rightarrow> None | w # others \<Rightarrow> Some w,
          filter (is_subtitle env) files) :: exn + path option \<times> path list)"
    using assms [symmetric] analyze_folder_V3_result [OF it] by (rule trans)
  then have "(case filter (is_video env) files of [] \<Rightarrow> None | w # others \<Rightarrow> Some w) = Some v"
    by (simp only: sum.inject prod.inject)
  then show ?thesis by (rule first_video_is_video)
qed

lemma is_video_suffix:
  assumes "is_video env v"
  shows "suffix v \<noteq> []"
proof
  assume "suffix v = []"
  then have "lower (suffix v) = []" by simp
  moreover have "[] \<notin> set VIDEO_EXTENSIONS" by (simp add: VIDEO_EXTENSIONS_def)
  ultimately show False using assms by (simp add: is_video_def)
qed

text \<open>
  C8. For every video selected by the analysis of either program, whose name holds
  no path separator, the output path is computed without an exception: it is in the
  directory of the video and its name is the stem of the video, then \<open>_subbed\<close>,
  then \<open>.mkv\<close>.
\<close>

theorem output_path_of_selected_video:
  assumes "snd (analyze_folder env folder_path) = Inr (Some v, subs)
           \<or> snd (analyze_folder_V3 env folder_path) = Inr (Some v, subs)"
    and "\<forall>c \<in> set (name v). c \<notin> set (seps (flavour env))"
  shows "output_file env v = Inr \<lparr>parent = parent v, name = stem v @ OUTPUT_SUFFIX @ ''.mkv''\<rparr>"
proof -
  have "is_video env v"
    using assms(1) analyze_folder_video analyze_folder_V3_video by blast
  then have "suffix v \<noteq> []" by (rule is_video_suffix)
  then show ?thesis using assms(2) by (rule output_file_of_suffixed)
qed

text \<open>
  C5, as amended. When the enumeration of a folder completes, the first video
  candidate in enumeration order is selected; each later video candidate adds one
  WARNING record to the log and does not replace the selection. The record names the
  folder and, in merger.py, the selected video; it does not name the later file.
\<close>

theorem first_video_wins:
  assumes "iterdir env (Path env folder_path) = (files, None)"
    and "filter (is_video env) files = v # others"
  shows "analyze_folder env folder_path =
           (replicate (length others) (Logging WARNING (multiple_videos_msg (Path env folder_path) v)),
            Inr (Some v, filter (is_subtitle env) files))
       \<and> analyze_folder_V3 env folder_path =
           (replicate (length others) (Logging WARNING (multiple_videos_msg_V3 env folder_path)),
            Inr (Some v, filter (is_subtitle env) files))"
proof
  show "analyze_folder env folder_path =
           (replicate (length others) (Logging WARNING (multiple_videos_msg (Path env folder_path) v)),
            Inr (Some v, filter (is_subtitle env) files))"
    using analyze_folder_complete [OF assms(1)] by (simp only: assms(2) list.case)
  show "analyze_folder_V3 env folder_path =
           (replicate (length others) (Logging WARNING (multiple_videos_msg_V3 env folder_path)),
            Inr (Some v, filter (is_subtitle env) files))"
    using analyze_folder_V3_complete [OF assms(1)] by (simp only: assms(2) list.case)
qed

lemma subtitle_not_video: "is_subtitle env s \<Longrightarrow> \<not> is_video env s"
  using srt_not_video by (simp add: is_video_def is_subtitle_def)

lemma first_video_not_subtitle:
  assumes "(case filter (is_video env) files of [] \<Rightarrow> None | w # others \<Rightarrow> Some w) = Some v"
  shows "v \<notin> set (filter (is_subtitle env) files)"
proof -
  have "is_video env v" using assms by (rule first_video_is_video)
  then have "\<not> is_subtitle env v" using subtitle_not_video by blast
  then show ?thesis by simp
qed

lemma analyze_folder_result:
  assumes "iterdir env (Path env folder_path) = (files, None)"
  shows "snd (analyze_folder env folder_path) =
     Inr (case filter (is_video env) files of [] \<Rightarrow> None | w # others \<Rightarrow> Some w,
          filter (is_subtitle env) files)"
proof (cases "filter (is_video env) files")
  case Nil
  then show ?thesis using analyze_folder_complete [OF assms] by simp
next
  case (Cons w others)
  then show ?thesis using analyze_folder_complete [OF assms] by simp
qed


section \<open>The subtitle list, the result of a merge and the command line\<close>

text \<open>
  C10. The subtitle list that \<open>analyze_folder\<close> returns is the list of the
  enumerated regular files whose extension, without regard to case, is the subtitle
  extension, in enumeration order (in merger.py when the enumeration completes, in
  mergerV3.py also when an exception ends it); the selected video is not in it, and no
  file in it has a video extension.
\<close>

theorem each_file_one_role:
  assumes "iterdir env (Path env folder_path) = (files, raised)"
  shows "\<exists>video.
           snd (analyze_folder_V3 env folder_path) = Inr (video, filter (is_subtitle env) files)
         \<and> (raised = None \<longrightarrow>
              snd (analyze_folder env folder_path) = Inr (video, filter (is_subtitle env) files))
         \<and> (\<forall>v. video = Some v \<longrightarrow> v \<notin> set (filter (is_subtitle env) files))
         \<and> (\<forall>s \<in> set (filter (is_subtitle env) files).
               lower (suffix s) \<notin> set VIDEO_EXTENSIONS)"
proof (intro exI conjI impI allI ballI)
  let ?video = "case filter (is_video env) files of [] \<Rightarrow> None | w # others \<Rightarrow> Some w"
  show "snd (analyze_folder_V3 env folder_path) = Inr (?video, filter (is_subtitle env) files)"
    by (rule analyze_folder_V3_result [OF assms])
  show "snd (analyze_folder env folder_path) = Inr (?video, filter (is_subtitle env) files)"
    if "raised = None"
  proof -
    from that assms have "iterdir env (Path env folder_path) = (files, None)" by simp
    then show ?thesis by (rule analyze_folder_result)
  qed
  show "v \<notin> set (filter (is_subtitle env) files)" if "?video = Some v" for v
    using that by (rule first_video_not_subtitle)
  show "lower (suffix s) \<notin> set VIDEO_EXTENSIONS"
    if "s \<in> set (filter (is_subtitle env) files)" for s
  proof -
    from that have "lower (suffix s) = SUBTITLE_EXTENSION" by (simp add: is_subtitle_def)
    then show ?thesis using srt_not_video by simp
  qed
qed

lemma merge_try_returns:
  "\<exists>log success error. merge_try output_path r = (log, Inr (success, error)) \<and> (success \<longleftrightarrow> error = None)"
proof (cases r)
  case (Completed out err)
  then show ?thesis by auto
next
  case (CalledProcessError returncode out err)
  then show ?thesis by (auto simp: Let_def)
next
  case (Raised e)
  then show ?thesis by (cases e) (auto simp: Let_def)
qed

lemma merge_try_V3_returns:
  "\<exists>log success error. merge_try_V3 r = (log, Inr (success, error)) \<and> (success \<longleftrightarrow> error = None)"
  by (cases r) auto

text \<open>
  C1. Whatever the video file, the subtitle files, the output path and the behaviour
  of the external tool, \<open>merge_subtitles\<close> returns a success flag paired with an
  optional error text, in merger.py and in mergerV3.py: no exception leaves it. The
  error text is absent exactly when the flag is true.
\<close>

theorem merge_never_raises:
  "(\<exists>log success error.
      merge_subtitles env video_file subtitle_files output_path = (log, Inr (success, error))
      \<and> (success \<longleftrightarrow> error = None))
 \<and> (\<exists>log success error.
      merge_subtitles_V3 env video_file subtitle_files output_path = (log, Inr (success, error))
      \<and> (success \<longleftrightarrow> error = None))"
proof
  let ?cmd = "build_cmd video_file subtitle_files output_path"
  obtain log success error where
    "merge_try output_path (subprocess_run env ?cmd) = (log, Inr (success, error))"
    and "success \<longleftrightarrow> error = None"
    using merge_try_returns by blast
  then show "\<exists>log success error.
      merge_subtitles env video_file subtitle_files output_path = (log, Inr (success, error))
      \<and> (success \<longleftrightarrow> error = None)"
    by (simp add: merge_subtitles_def Let_def)
next
  let ?cmd = "build_cmd video_file subtitle_files output_path"
  obtain log success error where
    "merge_try_V3 (subprocess_run env ?cmd) = (log, Inr (success, error))"
    and "success \<longleftrightarrow> error = None"
    using merge_try_V3_returns by blast
  then show "\<exists>log success error.
      merge_subtitles_V3 env video_file subtitle_files output_path = (log, Inr (success, error))
      \<and> (success \<longleftrightarrow> error = None)"
    by (simp add: merge_subtitles_V3_def Let_def)
qed

lemma foldl_extend:
  "foldl (\<lambda>cmd x. cmd @ f x) acc xs = acc @ concat (map f xs)"
  by (induction xs arbitrary: acc) simp_all

lemma build_cmd_spec: "build_cmd video_file subtitle_files output_path = spec_cmd video_file subtitle_files output_path"
  unfolding build_cmd_def spec_cmd_def by (rule foldl_extend)

lemma commands_run_append: "commands_run (a @ b) = commands_run a @ commands_run b"
  by (induction a rule: commands_run.induct) simp_all

lemma merge_try_no_command: "commands_run (fst (merge_try output_path r)) = []"
proof (cases r)
  case (Completed out err)
  then show ?thesis by simp
next
  case (CalledProcessError returncode out err)
  then show ?thesis by (simp add: Let_def)
next
  case (Raised e)
  then show ?thesis by (cases e) (simp_all add: Let_def)
qed

lemma merge_try_V3_no_command: "commands_run (fst (merge_try_V3 r)) = []"
  by (cases r) simp_all

lemma merge_subtitles_commands:
  "commands_run (fst (merge_subtitles env video_file subtitle_files output_path))
     = [build_cmd video_file subtitle_files output_path]"
proof -
  let ?cmd = "build_cmd video_file subtitle_files output_path"
  obtain log r where t: "merge_try output_path (subprocess_run env ?cmd) = (log, r)"
    by (cases "merge_try output_path (subprocess_run env ?cmd)")
  have "commands_run log = []"
    using merge_try_no_command [of output_path "subprocess_run env ?cmd"] by (simp add: t)
  then show ?thesis by (simp add: merge_subtitles_def Let_def t)
qed

lemma merge_subtitles_V3_commands:
  "commands_run (fst (merge_subtitles_V3 env video_file subtitle_files output_path))
     = [build_cmd video_file subtitle_files output_path]"
proof -
  let ?cmd = "build_cmd video_file subtitle_files output_path"
  obtain log r where t: "merge_try_V3 (subprocess_run env ?cmd) = (log, r)"
    by (cases "merge_try_V3 (subprocess_run env ?cmd)")
  have "commands_run log = []"
    using merge_try_V3_no_command [of "subprocess_run env ?cmd"] by (simp add: t)
  then show ?thesis by (simp add: merge_subtitles_V3_def Let_def t)
qed

text \<open>
  C2. The one command line that \<open>merge_subtitles\<close> runs is the one the specification
  writes: the tool path, \<open>-o\<close> and the output path, the video path, then for each
  subtitle, in input order, \<open>--language\<close>, \<open>0:eng\<close> and its path. Both programs.
\<close>

theorem command_line_as_specified:
  "commands_run (fst (merge_subtitles env video_file subtitle_files output_path))
     = [spec_cmd video_file subtitle_files output_path]
 \<and> commands_run (fst (merge_subtitles_V3 env video_file subtitle_files output_path))
     = [spec_cmd video_file subtitle_files output_path]"
  by (simp only: merge_subtitles_commands merge_subtitles_V3_commands build_cmd_spec)


section \<open>Folders that are skipped\<close>


lemma analyze_step_commands:
  "commands_run (snd (snd (analyze_step env folder (vo, subs, log) file))) = commands_run log"
  by (simp add: analyze_step_cases commands_run_append split: option.split)

lemma analyze_step_V3_commands:
  "commands_run (snd (snd (analyze_step_V3 env folder_path (vo, subs, log) file))) = commands_run log"
  by (simp add: analyze_step_V3_cases commands_run_append split: option.split)

lemma analyze_fold_commands:
  "commands_run (snd (snd (foldl (analyze_step env folder) st files))) = commands_run (snd (snd st))"
proof (induction files arbitrary: st)
  case Nil
  show ?case by simp
next
  case (Cons f fs)
  obtain vo subs log where st: "st = (vo, subs, log)" by (cases st)
  show ?case using analyze_step_commands [of env folder vo subs log f]
    by (simp add: Cons.IH st)
qed

lemma analyze_fold_V3_commands:
  "commands_run (snd (snd (foldl (analyze_step_V3 env folder_path) st files))) = commands_run (snd (snd st))"
proof (induction files arbitrary: st)
  case Nil
  show ?case by simp
next
  case (Cons f fs)
  obtain vo subs log where st: "st = (vo, subs, log)" by (cases st)
  show ?case using analyze_step_V3_commands [of env folder_path vo subs log f]
    by (simp add: Cons.IH st)
qed

lemma analyze_except_commands:
  "commands_run (fst (analyze_except folder_path (vo, subs, log) raised)) = commands_run log"
proof (cases raised)
  case None
  then show ?thesis by simp
next
  case (Some e)
  then show ?thesis by (cases e) (simp_all add: commands_run_append)
qed

lemma analyze_except_V3_commands:
  "commands_run (fst (analyze_except_V3 folder_path (vo, subs, log) raised)) = commands_run log"
  by (cases raised) (simp_all add: commands_run_append)

lemma analyze_folder_no_command: "commands_run (fst (analyze_folder env folder_path)) = []"
proof -
  obtain files raised where it: "iterdir env (Path env folder_path) = (files, raised)"
    by (cases "iterdir env (Path env folder_path)")
  obtain vo ss lg where st:
    "foldl (analyze_step env (Path env folder_path)) (None, [], []) files = (vo, ss, lg)"
    by (cases "foldl (analyze_step env (Path env folder_path)) (None, [], []) files")
  have "commands_run lg = []"
    using analyze_fold_commands [of env "Path env folder_path" "(None, [], [])" files]
    by (simp add: st)
  then show ?thesis
    using analyze_except_commands [of folder_path vo ss lg raised]
    by (simp add: analyze_folder_def Let_def it st)
qed

lemma analyze_folder_V3_no_command: "commands_run (fst (analyze_folder_V3 env folder_path)) = []"
proof -
  obtain files raised where it: "iterdir env (Path env folder_path) = (files, raised)"
    by (cases "iterdir env (Path env folder_path)")
  obtain vo ss lg where st:
    "foldl (analyze_step_V3 env folder_path) (None, [], []) files = (vo, ss, lg)"
    by (cases "foldl (analyze_step_V3 env folder_path) (None, [], []) files")
  have "commands_run lg = []"
    using analyze_fold_V3_commands [of env folder_path "(None, [], [])" files]
    by (simp add: st)
  then show ?thesis
    using analyze_except_V3_commands [of folder_path vo ss lg raised]
    by (simp add: analyze_folder_V3_def it st)
qed

lemma run_merge_skip:
  assumes "video_file = None \<or> subtitle_files = []"
  shows "run_merge env video_file subtitle_files success_count =
     ([LogMessage (if video_file = None then no_video_msg else no_subtitles_msg)], Inr success_count)"
  using assms by (cases video_file) simp_all

lemma thread_merge_skip:
  assumes "video = None \<or> subs = []"
  shows "thread_merge env video subs success_count =
     ([LogQueuePut skipped_msg_V3 (Some COLOR_WARNING)], Inr success_count)"
  using assms by (cases video) (simp_all add: thread_merge_def)

lemma run_body_skip:
  assumes "analyze_folder env folder_path = (log, Inr (video_file, subtitle_files))"
    and "video_file = None \<or> subtitle_files = []"
  shows "run_body env total_folders i folder_path success_count =
     ([Progress (i + 1) total_folders (name (Path env folder_path)),
       LogMessage (analyzing_msg (i + 1) total_folders folder_path)] @ log
        @ [LogMessage (if video_file = None then no_video_msg else no_subtitles_msg)],
      Inr success_count)"
  by (simp add: run_body_def Let_def assms(1) run_merge_skip [OF assms(2)])

lemma thread_body_skip:
  assumes "analyze_folder_V3 env folder_path = (log, Inr (video, subs))"
    and "video = None \<or> subs = []"
  shows "thread_body env total' i folder_path success_count =
     ([ProgressBarSet i total',
       ProgressLabel (processing_msg i total' (name (Path env folder_path))),
       LogQueuePut (analyzing_msg_V3 folder_path) None] @ log
        @ [LogQueuePut skipped_msg_V3 (Some COLOR_WARNING)],
      Inr success_count)"
  by (simp add: thread_body_def Let_def assms(1) thread_merge_skip [OF assms(2)])

text \<open>
  C3. When the analysis of a folder yields no video or no subtitle, the body of the
  loop, at any position of any batch, runs no external command for it, reports one
  warning (not an error) and leaves the count of successes as it was. Both programs.
  The total is the length of the list of folders, whatever happens in the loop.
\<close>

theorem skipped_folder_never_merged:
  assumes "video = None \<or> subs = []"
  shows "(analyze_folder env folder_path = (log, Inr (video, subs)) \<longrightarrow>
            (\<exists>msg. run_body env total_folders i folder_path success_count =
                     ([Progress (i + 1) total_folders (name (Path env folder_path)),
                       LogMessage (analyzing_msg (i + 1) total_folders folder_path)] @ log
                        @ [LogMessage msg],
                      Inr success_count)
                  \<and> (msg = no_video_msg \<or> msg = no_subtitles_msg))
          \<and> commands_run (fst (run_body env total_folders i folder_path success_count)) = [])
       \<and> (analyze_folder_V3 env folder_path = (log, Inr (video, subs)) \<longrightarrow>
            thread_body env total' i folder_path success_count =
              ([ProgressBarSet i total',
                ProgressLabel (processing_msg i total' (name (Path env folder_path))),
                LogQueuePut (analyzing_msg_V3 folder_path) None] @ log
                 @ [LogQueuePut skipped_msg_V3 (Some COLOR_WARNING)],
               Inr success_count)
          \<and> commands_run (fst (thread_body env total' i folder_path success_count)) = [])"
proof (intro conjI impI)
  assume a: "analyze_folder env folder_path = (log, Inr (video, subs))"
  note body = run_body_skip [OF a assms, of total_folders i success_count]
  show "\<exists>msg. run_body env total_folders i folder_path success_count =
                     ([Progress (i + 1) total_folders (name (Path env folder_path)),
                       LogMessage (analyzing_msg (i + 1) total_folders folder_path)] @ log
                        @ [LogMessage msg],
                      Inr success_count)
                  \<and> (msg = no_video_msg \<or> msg = no_subtitles_msg)"
    using body by (intro exI [of _ "if video = None then no_video_msg else no_subtitles_msg"]) simp
  have "commands_run log = []"
    using analyze_folder_no_command [of env folder_path] by (simp add: a)
  then show "commands_run (fst (run_body env total_folders i folder_path success_count)) = []"
    by (simp add: body commands_run_append)
next
  assume a: "analyze_folder_V3 env folder_path = (log, Inr (video, subs))"
  note body = thread_body_skip [OF a assms, of total' i success_count]
  show "thread_body env total' i folder_path success_count =
              ([ProgressBarSet i total',
                ProgressLabel (processing_msg i total' (name (Path env folder_path))),
                LogQueuePut (analyzing_msg_V3 folder_path) None] @ log
                 @ [LogQueuePut skipped_msg_V3 (Some COLOR_WARNING)],
               Inr success_count)"
    by (rule body)
  have "commands_run log = []"
    using analyze_folder_V3_no_command [of env folder_path] by (simp add: a)
  then show "commands_run (fst (thread_body env total' i folder_path success_count)) = []"
    by (simp add: body commands_run_append)
qed

text \<open>
  C9, as amended. When the analysis of a folder yields no subtitle, the folder is
  skipped with one warning: in merger.py \<open>No subtitle files (.srt) found.\<close> if a video
  was found and \<open>No video file found.\<close> if none was; in mergerV3.py
  \<open>No video or subtitles found.\<close> in both cases.
\<close>

theorem no_subtitles_report:
  "(analyze_folder env folder_path = (log, Inr (video, [])) \<longrightarrow>
      run_body env total_folders i folder_path success_count =
        ([Progress (i + 1) total_folders (name (Path env folder_path)),
          LogMessage (analyzing_msg (i + 1) total_folders folder_path)] @ log
           @ [LogMessage (if video = None then no_video_msg else no_subtitles_msg)],
         Inr success_count))
 \<and> (analyze_folder_V3 env folder_path = (log, Inr (video, [])) \<longrightarrow>
      thread_body env total' i folder_path success_count =
        ([ProgressBarSet i total',
          ProgressLabel (processing_msg i total' (name (Path env folder_path))),
          LogQueuePut (analyzing_msg_V3 folder_path) None] @ log
           @ [LogQueuePut skipped_msg_V3 (Some COLOR_WARNING)],
         Inr success_count))"
proof (intro conjI impI)
  assume "analyze_folder env folder_path = (log, Inr (video, []))"
  then show "run_body env total_folders i folder_path success_count =
        ([Progress (i + 1) total_folders (name (Path env folder_path)),
          LogMessage (analyzing_msg (i + 1) total_folders folder_path)] @ log
           @ [LogMessage (if video = None then no_video_msg else no_subtitles_msg)],
         Inr success_count)"
    by (rule run_body_skip) simp
next
  assume "analyze_folder_V3 env folder_path = (log, Inr (video, []))"
  then show "thread_body env total' i folder_path success_count =
        ([ProgressBarSet i total',
          ProgressLabel (processing_msg i total' (name (Path env folder_path))),
          LogQueuePut (analyzing_msg_V3 folder_path) None] @ log
           @ [LogQueuePut skipped_msg_V3 (Some COLOR_WARNING)],
         Inr success_count)"
    by (rule thread_body_skip) simp
qed






section \<open>The theorems at concrete inputs\<close>

text \<open>
  C1, at a tool that is not installed.
\<close>

theorem merge_never_raises_witness:
  "(\<exists>log success error.
      merge_subtitles missing_tool_env \<lparr>parent = ''/v/ep1/'', name = ''a.mp4''\<rparr>
        [\<lparr>parent = ''/v/ep1/'', name = ''a.srt''\<rparr>]
        \<lparr>parent = ''/v/ep1/'', name = ''a_subbed.mkv''\<rparr> = (log, Inr (success, error))
      \<and> (success \<longleftrightarrow> error = None))
 \<and> (\<exists>log success error.
      merge_subtitles_V3 missing_tool_env \<lparr>parent = ''/v/ep1/'', name = ''a.mp4''\<rparr>
        [\<lparr>parent = ''/v/ep1/'', name = ''a.srt''\<rparr>]
        \<lparr>parent = ''/v/ep1/'', name = ''a_subbed.mkv''\<rparr> = (log, Inr (success, error))
      \<and> (success \<longleftrightarrow> error = None))"
  by (rule merge_never_raises)

text \<open>
  C2, at a video with two subtitles.
\<close>

theorem command_line_as_specified_witness:
  "commands_run (fst (merge_subtitles example_env \<lparr>parent = ''/v/ep3/'', name = ''c.MKV''\<rparr>
        [\<lparr>parent = ''/v/ep3/'', name = ''c.en.srt''\<rparr>, \<lparr>parent = ''/v/ep3/'', name = ''c.fr.SRT''\<rparr>]
        \<lparr>parent = ''/v/ep3/'', name = ''c_subbed.mkv''\<rparr>))
     = [[MKVMERGE_PATH, ''-o'', ''/v/ep3/c_subbed.mkv'', ''/v/ep3/c.MKV'',
         ''--language'', ''0:eng'', ''/v/ep3/c.en.srt'',
         ''--language'', ''0:eng'', ''/v/ep3/c.fr.SRT'']]"
proof -
  have "spec_cmd \<lparr>parent = ''/v/ep3/'', name = ''c.MKV''\<rparr>
        [\<lparr>parent = ''/v/ep3/'', name = ''c.en.srt''\<rparr>, \<lparr>parent = ''/v/ep3/'', name = ''c.fr.SRT''\<rparr>]
        \<lparr>parent = ''/v/ep3/'', name = ''c_subbed.mkv''\<rparr>
     = [MKVMERGE_PATH, ''-o'', ''/v/ep3/c_subbed.mkv'', ''/v/ep3/c.MKV'',
         ''--language'', ''0:eng'', ''/v/ep3/c.en.srt'',
         ''--language'', ''0:eng'', ''/v/ep3/c.fr.SRT'']"
    by (simp add: spec_cmd_def str_path_def)
  then show ?thesis
    using command_line_as_specified [of example_env "\<lparr>parent = ''/v/ep3/'', name = ''c.MKV''\<rparr>"
        "[\<lparr>parent = ''/v/ep3/'', name = ''c.en.srt''\<rparr>, \<lparr>parent = ''/v/ep3/'', name = ''c.fr.SRT''\<rparr>]"
        "\<lparr>parent = ''/v/ep3/'', name = ''c_subbed.mkv''\<rparr>"]
    by simp
qed

text \<open>
  C8, at \<open>c.MKV\<close>.
\<close>

theorem output_path_of_selected_video_witness:
  "output_file example_env \<lparr>parent = ''/v/ep3/'', name = ''c.MKV''\<rparr>
     = Inr \<lparr>parent = ''/v/ep3/'', name = ''c_subbed.mkv''\<rparr>"
proof -
  let ?v = "\<lparr>parent = ''/v/ep3/'', name = ''c.MKV''\<rparr>"
  let ?subs = "[\<lparr>parent = ''/v/ep3/'', name = ''c.en.srt''\<rparr>, \<lparr>parent = ''/v/ep3/'', name = ''c.fr.SRT''\<rparr>]"
  have h1: "snd (analyze_folder example_env ''/v/ep3'') = Inr (Some ?v, ?subs)
            \<or> snd (analyze_folder_V3 example_env ''/v/ep3'') = Inr (Some ?v, ?subs)"
    by code_simp
  have h2: "\<forall>c \<in> set (name ?v). c \<notin> set (seps (flavour example_env))"
    by code_simp
  have st: "stem ?v @ OUTPUT_SUFFIX @ ''.mkv'' = ''c_subbed.mkv''" by code_simp
  show ?thesis
    using output_path_of_selected_video [OF h1 h2] by (simp add: st)
qed

text \<open>
  C3, at the folder with a video and no subtitle.
\<close>

theorem skipped_folder_never_merged_witness:
  "(\<exists>msg. run_body example_env 2 1 ''/v/ep5'' 1 =
            ([Progress (1 + 1) 2 (name (Path example_env ''/v/ep5'')),
              LogMessage (analyzing_msg (1 + 1) 2 ''/v/ep5'')] @ [] @ [LogMessage msg],
             Inr 1)
          \<and> (msg = no_video_msg \<or> msg = no_subtitles_msg))
   \<and> commands_run (fst (run_body example_env 2 1 ''/v/ep5'' 1)) = []
   \<and> thread_body example_env 2 1 ''/v/ep5'' 1 =
       ([ProgressBarSet 1 2,
         ProgressLabel (processing_msg 1 2 (name (Path example_env ''/v/ep5''))),
         LogQueuePut (analyzing_msg_V3 ''/v/ep5'') None] @ []
          @ [LogQueuePut skipped_msg_V3 (Some COLOR_WARNING)],
        Inr 1)
   \<and> commands_run (fst (thread_body example_env 2 1 ''/v/ep5'' 1)) = []"
proof -
  let ?d = "\<lparr>parent = ''/v/ep5/'', name = ''d.mp4''\<rparr>"
  have h: "Some ?d = None \<or> ([] :: path list) = []" by simp
  have a: "analyze_folder example_env ''/v/ep5'' = ([], Inr (Some ?d, []))" by code_simp
  have b: "analyze_folder_V3 example_env ''/v/ep5'' = ([], Inr (Some ?d, []))" by code_simp
  show ?thesis
    using skipped_folder_never_merged [OF h, where env = example_env and folder_path = "''/v/ep5''"
        and log = "[]" and total_folders = 2 and i = 1 and success_count = 1 and total' = 2] a b
    by blast
qed

text \<open>
  C5 as amended, at the folder with \<open>a.mp4\<close>, \<open>b.mkv\<close> and \<open>a.srt\<close>.
\<close>

theorem first_video_wins_witness:
  "analyze_folder example_env ''/v/ep1'' =
     (replicate (length [\<lparr>parent = ''/v/ep1/'', name = ''b.mkv''\<rparr>])
        (Logging WARNING (multiple_videos_msg (Path example_env ''/v/ep1'')
           \<lparr>parent = ''/v/ep1/'', name = ''a.mp4''\<rparr>)),
      Inr (Some \<lparr>parent = ''/v/ep1/'', name = ''a.mp4''\<rparr>, filter (is_subtitle example_env) ep1_files))
 \<and> analyze_folder_V3 example_env ''/v/ep1'' =
     (replicate (length [\<lparr>parent = ''/v/ep1/'', name = ''b.mkv''\<rparr>])
        (Logging WARNING (multiple_videos_msg_V3 example_env ''/v/ep1'')),
      Inr (Some \<lparr>parent = ''/v/ep1/'', name = ''a.mp4''\<rparr>, filter (is_subtitle example_env) ep1_files))"
proof -
  have h1: "iterdir example_env (Path example_env ''/v/ep1'') = (ep1_files, None)"
    by code_simp
  have h2: "filter (is_video example_env) ep1_files =
      \<lparr>parent = ''/v/ep1/'', name = ''a.mp4''\<rparr> # [\<lparr>parent = ''/v/ep1/'', name = ''b.mkv''\<rparr>]"
    by code_simp
  show ?thesis by (rule first_video_wins [OF h1 h2])
qed

text \<open>
  C5 as stated fails at the folder that enumerates \<open>a.mp4\<close> then \<open>b.mkv\<close>: the one
  warning of either program does not mention \<open>b.mkv\<close>.
\<close>

theorem first_video_wins_counterexample:
  "fst (analyze_folder example_env ''/v/ep1'') =
     [Logging WARNING (''Multiple videos in ep1. Using '' @ [CHR 0x27] @ ''a.mp4'' @ [CHR 0x27] @ ''.'')]
 \<and> map (mentions ''b.mkv'') (fst (analyze_folder example_env ''/v/ep1'')) = [False]
 \<and> fst (analyze_folder_V3 example_env ''/v/ep1'') =
     [Logging WARNING ''Multiple videos found in ep1, using first found.'']
 \<and> map (mentions ''b.mkv'') (fst (analyze_folder_V3 example_env ''/v/ep1'')) = [False]"
  by code_simp

text \<open>
  C10, at the folder with \<open>c.MKV\<close>, \<open>c.en.srt\<close>, \<open>notes.txt\<close> and \<open>c.fr.SRT\<close>.
\<close>

theorem each_file_one_role_witness:
  "\<exists>video.
     snd (analyze_folder_V3 example_env ''/v/ep3'') = Inr (video, filter (is_subtitle example_env) ep3_files)
   \<and> snd (analyze_folder example_env ''/v/ep3'') = Inr (video, filter (is_subtitle example_env) ep3_files)
   \<and> (\<forall>v. video = Some v \<longrightarrow> v \<notin> set (filter (is_subtitle example_env) ep3_files))
   \<and> (\<forall>s \<in> set (filter (is_subtitle example_env) ep3_files).
         lower (suffix s) \<notin> set VIDEO_EXTENSIONS)"
proof -
  have h: "iterdir example_env (Path example_env ''/v/ep3'') = (ep3_files, None)"
    by code_simp
  show ?thesis using each_file_one_role [OF h] by simp
qed

lemma analyze_folder_not_found:
  assumes "iterdir env (Path env folder_path) = (files, Some (FileNotFoundError m))"
  shows "\<exists>log. analyze_folder env folder_path =
           (log @ [Logging ERROR (could_not_access_msg folder_path)], Inr (None, []))"
proof -
  obtain vo ss lg where st:
    "foldl (analyze_step env (Path env folder_path)) (None, [], []) files = (vo, ss, lg)"
    by (cases "foldl (analyze_step env (Path env folder_path)) (None, [], []) files")
  have "analyze_folder env folder_path =
          (lg @ [Logging ERROR (could_not_access_msg folder_path)], Inr (None, []))"
    by (simp add: analyze_folder_def Let_def assms st)
  then show ?thesis by blast
qed

lemma analyze_folder_propagates:
  assumes "iterdir env (Path env folder_path) = (files, Some e)"
    and "\<forall>m. e \<noteq> FileNotFoundError m"
  shows "snd (analyze_folder env folder_path) = Inl e"
proof -
  obtain vo ss lg where st:
    "foldl (analyze_step env (Path env folder_path)) (None, [], []) files = (vo, ss, lg)"
    by (cases "foldl (analyze_step env (Path env folder_path)) (None, [], []) files")
  have "snd (analyze_except folder_path (vo, ss, lg) (Some e)) = Inl e"
    using assms(2) by (cases e) simp_all
  then show ?thesis by (simp add: analyze_folder_def Let_def assms(1) st)
qed

lemma analyze_folder_V3_inaccessible:
  assumes "iterdir env (Path env folder_path) = ([], Some e)"
  shows "analyze_folder_V3 env folder_path =
           ([Logging ERROR (could_not_analyze_msg folder_path e)], Inr (None, []))"
  by (simp add: analyze_folder_V3_def assms)



text \<open>
  C9 as amended, at the folder with a video and no subtitle.
\<close>

theorem no_subtitles_report_witness:
  "run_body example_env 2 1 ''/v/ep5'' 1 =
     ([Progress (1 + 1) 2 (name (Path example_env ''/v/ep5'')),
       LogMessage (analyzing_msg (1 + 1) 2 ''/v/ep5'')] @ []
        @ [LogMessage (if Some \<lparr>parent = ''/v/ep5/'', name = ''d.mp4''\<rparr> = None
                       then no_video_msg else no_subtitles_msg)],
      Inr 1)
 \<and> thread_body example_env 2 1 ''/v/ep5'' 1 =
     ([ProgressBarSet 1 2,
       ProgressLabel (processing_msg 1 2 (name (Path example_env ''/v/ep5''))),
       LogQueuePut (analyzing_msg_V3 ''/v/ep5'') None] @ []
        @ [LogQueuePut skipped_msg_V3 (Some COLOR_WARNING)],
      Inr 1)"
proof -
  let ?d = "\<lparr>parent = ''/v/ep5/'', name = ''d.mp4''\<rparr>"
  have a: "analyze_folder example_env ''/v/ep5'' = ([], Inr (Some ?d, []))" by code_simp
  have b: "analyze_folder_V3 example_env ''/v/ep5'' = ([], Inr (Some ?d, []))" by code_simp
  show ?thesis
    using no_subtitles_report [where env = example_env and folder_path = "''/v/ep5''"
        and log = "[]" and video = "Some ?d" and total_folders = 2 and i = 1
        and success_count = 1 and total' = 2] a b
    by blast
qed

text \<open>
  C9 as stated fails in merger.py at the empty folder: there is no subtitle, and the
  reason reported is that no video was found.
\<close>

theorem no_subtitles_report_counterexample:
  "snd (analyze_folder example_env ''/v/ep4'') = Inr (None, [])
 \<and> fst (run example_env [''/v/ep4'']) =
     [Progress 1 1 ''ep4'', LogMessage (analyzing_msg 1 1 ''/v/ep4''),
      LogMessage no_video_msg, Summary 0 1, Finished]
 \<and> no_video_msg \<noteq> no_subtitles_msg
 \<and> \<not> contains no_video_msg ''ubtitle''"
  by code_simp

text \<open>
  C4. On a folder that may not be read, \<open>analyze_folder\<close> of merger.py does not
  return: \<open>PermissionError\<close> leaves it, since only \<open>FileNotFoundError\<close> is caught.
  \<open>analyze_folder\<close> of mergerV3.py returns the empty result and logs an error, as the
  claim says.
\<close>

theorem permission_denied_escapes_analyze_folder:
  "analyze_folder example_env ''/v/ep2'' =
     ([], Inl (PermissionError ''[Errno 13] Permission denied''))
 \<and> analyze_folder_V3 example_env ''/v/ep2'' =
     ([Logging ERROR ''Could not analyze folder /v/ep2: [Errno 13] Permission denied''],
      Inr (None, []))"
  by code_simp

text \<open>
  C7. With three folders of which the second may not be read, \<open>ProcessingWorker.run\<close>
  of merger.py ends with \<open>PermissionError\<close> after the progress event of the second
  folder: no outcome for it, no event for the third folder, no summary and no
  \<open>finished\<close>. \<open>processing_thread\<close> of mergerV3.py completes with the summary 2/3.
\<close>

theorem permission_denied_aborts_run:
  "snd (run example_env [''/v/ep1'', ''/v/ep2'', ''/v/ep3''])
     = Inl (PermissionError ''[Errno 13] Permission denied'')
 \<and> summaries (fst (run example_env [''/v/ep1'', ''/v/ep2'', ''/v/ep3''])) = []
 \<and> progress_events (fst (run example_env [''/v/ep1'', ''/v/ep2'', ''/v/ep3'']))
     = [(1, 3, ''ep1''), (2, 3, ''ep2'')]
 \<and> Finished \<notin> set (fst (run example_env [''/v/ep1'', ''/v/ep2'', ''/v/ep3'']))
 \<and> snd (processing_thread example_env [''/v/ep1'', ''/v/ep2'', ''/v/ep3'']) = Inr ()
 \<and> ProgressLabel (summary_msg 2 3)
     \<in> set (fst (processing_thread example_env [''/v/ep1'', ''/v/ep2'', ''/v/ep3'']))"
  by code_simp

section \<open>The batch run of merger.py when no exception escapes\<close>

text \<open>
  The folder analysis and the merge emit log records only; the loop body emits one
  progress event, then those records and one log message, and changes the count of
  successes by at most one.
\<close>

lemma logging_only:
  assumes "list_all is_logging log"
  shows "progress_events log = [] \<and> summaries log = [] \<and> commands_run log = []"
  using assms
proof (induction log)
  case Nil
  show ?case by simp
next
  case (Cons e es)
  then show ?case by (cases e) simp_all
qed

lemma progress_events_append: "progress_events (a @ b) = progress_events a @ progress_events b"
  by (induction a rule: progress_events.induct) simp_all

lemma summaries_append: "summaries (a @ b) = summaries a @ summaries b"
  by (induction a rule: summaries.induct) simp_all

lemma analyze_step_logging:
  "list_all is_logging (snd (snd (analyze_step env folder (vo, subs, log) file))) = list_all is_logging log"
  by (simp add: analyze_step_cases split: option.split)

lemma analyze_fold_logging:
  "list_all is_logging (snd (snd (foldl (analyze_step env folder) st files)))
     = list_all is_logging (snd (snd st))"
proof (induction files arbitrary: st)
  case Nil
  show ?case by simp
next
  case (Cons f fs)
  obtain vo subs log where st: "st = (vo, subs, log)" by (cases st)
  show ?case using analyze_step_logging [of env folder vo subs log f]
    by (simp add: Cons.IH st)
qed

lemma analyze_except_logging:
  "list_all is_logging (fst (analyze_except folder_path (vo, subs, log) raised)) = list_all is_logging log"
proof (cases raised)
  case None
  then show ?thesis by simp
next
  case (Some e)
  then show ?thesis by (cases e) simp_all
qed

lemma analyze_folder_logging: "list_all is_logging (fst (analyze_folder env folder_path))"
proof -
  obtain files raised where it: "iterdir env (Path env folder_path) = (files, raised)"
    by (cases "iterdir env (Path env folder_path)")
  obtain vo ss lg where st:
    "foldl (analyze_step env (Path env folder_path)) (None, [], []) files = (vo, ss, lg)"
    by (cases "foldl (analyze_step env (Path env folder_path)) (None, [], []) files")
  have "list_all is_logging lg"
    using analyze_fold_logging [of env "Path env folder_path" "(None, [], [])" files]
    by (simp add: st)
  then show ?thesis
    using analyze_except_logging [of folder_path vo ss lg raised]
    by (simp add: analyze_folder_def Let_def it st)
qed

lemma merge_try_logging: "list_all is_logging (fst (merge_try output_path r))"
proof (cases r)
  case (Completed out err)
  then show ?thesis by simp
next
  case (CalledProcessError returncode out err)
  then show ?thesis by (simp add: Let_def)
next
  case (Raised e)
  then show ?thesis by (cases e) (simp_all add: Let_def)
qed

lemma merge_subtitles_quiet:
  "progress_events (fst (merge_subtitles env v subs out)) = []
   \<and> summaries (fst (merge_subtitles env v subs out)) = []"
proof -
  let ?cmd = "build_cmd v subs out"
  obtain log r where t: "merge_try out (subprocess_run env ?cmd) = (log, r)"
    by (cases "merge_try out (subprocess_run env ?cmd)")
  have "list_all is_logging log"
    using merge_try_logging [of out "subprocess_run env ?cmd"] by (simp add: t)
  then have "progress_events log = [] \<and> summaries log = []"
    using logging_only by blast
  then show ?thesis by (simp add: merge_subtitles_def Let_def t)
qed

lemma run_merge_quiet:
  assumes "run_merge env video subs c = (t, Inr c')"
  shows "progress_events t = [] \<and> summaries t = [] \<and> (c' = c \<or> c' = c + 1)"
proof (cases "video = None \<or> subs = []")
  case True
  then show ?thesis using assms run_merge_skip [OF True, of env c] by auto
next
  case False
  then obtain v where v: "video = Some v" and ne: "subs \<noteq> []" by auto
  show ?thesis
  proof (cases "output_file env v")
    case (Inl e)
    then show ?thesis using assms v ne by simp
  next
    case (Inr out)
    obtain log r where m: "merge_subtitles env v subs out = (log, r)"
      by (cases "merge_subtitles env v subs out")
    have q: "progress_events log = [] \<and> summaries log = []"
      using merge_subtitles_quiet [of env v subs out] by (simp add: m)
    show ?thesis
    proof (cases r)
      case (Inl e)
      then show ?thesis using assms v ne Inr m by simp
    next
      case r: (Inr p)
      obtain success error where p: "p = (success, error)" by (cases p)
      show ?thesis
        using assms v ne Inr m r p q
        by (cases success) (auto simp: progress_events_append summaries_append)
    qed
  qed
qed

lemma run_body_events:
  assumes "run_body env n i f c = (t, Inr c')"
  shows "progress_events t = [(i + 1, n, name (Path env f))] \<and> summaries t = []
         \<and> (c' = c \<or> c' = c + 1)"
proof -
  obtain log a where an: "analyze_folder env f = (log, a)" by (cases "analyze_folder env f")
  have lg: "progress_events log = [] \<and> summaries log = []"
    using analyze_folder_logging [of env f] logging_only [of log] by (simp add: an)
  show ?thesis
  proof (cases a)
    case (Inl e)
    then show ?thesis using assms an by (simp add: run_body_def Let_def)
  next
    case (Inr p)
    obtain video subs where p: "p = (video, subs)" by (cases p)
    obtain later r where rm: "run_merge env video subs c = (later, r)"
      by (cases "run_merge env video subs c")
    have r: "r = Inr c'" and t: "t = [Progress (i + 1) n (name (Path env f)),
               LogMessage (analyzing_msg (i + 1) n f)] @ log @ later"
      using assms an Inr p rm by (simp_all add: run_body_def Let_def)
    from rm r have "progress_events later = [] \<and> summaries later = [] \<and> (c' = c \<or> c' = c + 1)"
      using run_merge_quiet by blast
    then show ?thesis using lg by (simp add: t progress_events_append summaries_append)
  qed
qed

text \<open>
  A run that returns has emitted one progress event per folder, in the order of the
  list, numbered from 1 and carrying the number of folders, then one summary and
  \<open>finished\<close>.
\<close>

lemma run_loop_events:
  assumes "run_loop env n i folders c = (t, Inr c')"
  shows "progress_events t
           = map (\<lambda>(k, f). (k + 1, n, name (Path env f))) (zip [i ..< i + length folders] folders)
         \<and> summaries t = [] \<and> c \<le> c' \<and> c' \<le> c + length folders"
  using assms
proof (induction folders arbitrary: i c t)
  case Nil
  then show ?case by simp
next
  case (Cons f fs)
  obtain first r where b: "run_body env n i f c = (first, r)"
    by (cases "run_body env n i f c")
  show ?case
  proof (cases r)
    case (Inl e)
    then show ?thesis using Cons.prems b by simp
  next
    case (Inr c1)
    obtain later r' where l: "run_loop env n (i + 1) fs c1 = (later, r')"
      by (cases "run_loop env n (i + 1) fs c1")
    have r': "r' = Inr c'" and t: "t = first @ later"
      using Cons.prems b Inr l by simp_all
    have fb: "progress_events first = [(i + 1, n, name (Path env f))] \<and> summaries first = []
         \<and> (c1 = c \<or> c1 = c + 1)"
      using b Inr run_body_events by blast
    have ih: "progress_events later
           = map (\<lambda>(k, f). (k + 1, n, name (Path env f))) (zip [i + 1 ..< i + 1 + length fs] fs)
         \<and> summaries later = [] \<and> c1 \<le> c' \<and> c' \<le> c1 + length fs"
      using Cons.IH [of "i + 1" c1 later] l r' by simp
    have lt: "i < i + length (f # fs)" by simp
    have e1: "i + length (f # fs) = i + 1 + length fs" by simp
    have e2: "Suc i = i + 1" by simp
    have up: "[i ..< i + length (f # fs)] = i # [i + 1 ..< i + 1 + length fs]"
      using upt_conv_Cons [OF lt] by (simp only: e1 e2)
    show ?thesis
      using fb ih unfolding t up
      by (auto simp: progress_events_append summaries_append)
  qed
qed

lemma run_completed:
  assumes "snd (run env folders) = Inr ()"
  shows "\<exists>trace c. fst (run env folders) = trace @ [Summary c (length folders), Finished]
           \<and> summaries trace = [] \<and> c \<le> length folders
           \<and> progress_events trace
               = map (\<lambda>(k, f). (k + 1, length folders, name (Path env f)))
                   (zip [0 ..< length folders] folders)"
proof -
  obtain t r where l: "run_loop env (length folders) 0 folders 0 = (t, r)"
    by (cases "run_loop env (length folders) 0 folders 0")
  show ?thesis
  proof (cases r)
    case (Inl e)
    then show ?thesis using assms l by (simp add: run_def Let_def)
  next
    case (Inr c)
    have "fst (run env folders) = t @ [Summary c (length folders), Finished]"
      using l Inr by (simp add: run_def Let_def)
    moreover have "progress_events t
           = map (\<lambda>(k, f). (k + 1, length folders, name (Path env f)))
               (zip [0 ..< 0 + length folders] folders)
         \<and> summaries t = [] \<and> 0 \<le> c \<and> c \<le> 0 + length folders"
      using l Inr run_loop_events [of env "length folders" 0 folders 0 t c] by simp
    ultimately show ?thesis by auto
  qed
qed

text \<open>
  The run returns when every folder is readable: the output path of a selected video
  is always defined and \<open>merge_subtitles\<close> returns.
\<close>

lemma merge_subtitles_returns:
  "\<exists>log success error. merge_subtitles env v subs out = (log, Inr (success, error))"
proof -
  obtain log success error where
    "merge_try out (subprocess_run env (build_cmd v subs out)) = (log, Inr (success, error))"
    using merge_try_returns by blast
  then show ?thesis by (simp add: merge_subtitles_def Let_def)
qed

lemma run_merge_returns:
  assumes "\<forall>v. video = Some v \<longrightarrow> is_video env v \<and> plain_name env v"
  shows "\<exists>t c'. run_merge env video subs c = (t, Inr c')"
proof (cases "video = None \<or> subs = []")
  case True
  then show ?thesis using run_merge_skip [OF True, of env c] by blast
next
  case False
  then obtain v where v: "video = Some v" and ne: "subs \<noteq> []" by auto
  have "suffix v \<noteq> []" using assms v is_video_suffix by blast
  moreover have "\<forall>c \<in> set (name v). c \<notin> set (seps (flavour env))"
    using assms v by (simp add: plain_name_def)
  ultimately obtain out where out: "output_file env v = Inr out"
    using output_file_of_suffixed by blast
  obtain log success error where m: "merge_subtitles env v subs out = (log, Inr (success, error))"
    using merge_subtitles_returns by blast
  show ?thesis using v ne out m by (cases success) simp_all
qed

lemma filter_head_mem: "filter P xs = v # others \<Longrightarrow> v \<in> set xs"
proof -
  assume "filter P xs = v # others"
  then have "v \<in> set (filter P xs)" by simp
  then show "v \<in> set xs" by simp
qed

lemma run_body_returns:
  assumes "iterdir env (Path env f) = (files, raised)"
    and "raised = None \<or> (\<exists>m. raised = Some (FileNotFoundError m))"
    and "\<forall>p \<in> set files. plain_name env p"
  shows "\<exists>t c'. run_body env n i f c = (t, Inr c')"
proof -
  have "\<exists>log video subs. analyze_folder env f = (log, Inr (video, subs))
          \<and> (\<forall>v. video = Some v \<longrightarrow> is_video env v \<and> plain_name env v)"
  proof (cases raised)
    case None
    with assms(1) have it: "iterdir env (Path env f) = (files, None)" by simp
    show ?thesis
    proof (cases "filter (is_video env) files")
      case Nil
      then show ?thesis using analyze_folder_complete [OF it] by simp
    next
      case (Cons w others)
      then have "is_video env w" "w \<in> set files"
        using filter_head filter_head_mem by fast+
      then show ?thesis using analyze_folder_complete [OF it] Cons assms(3) by simp
    qed
  next
    case (Some e)
    with assms(2) obtain m where "raised = Some (FileNotFoundError m)" by auto
    with assms(1) have "iterdir env (Path env f) = (files, Some (FileNotFoundError m))" by simp
    then show ?thesis using analyze_folder_not_found by fastforce
  qed
  then obtain log video subs where an: "analyze_folder env f = (log, Inr (video, subs))"
    and ok: "\<forall>v. video = Some v \<longrightarrow> is_video env v \<and> plain_name env v"
    by blast
  obtain t c' where "run_merge env video subs c = (t, Inr c')"
    using run_merge_returns [OF ok] by blast
  then show ?thesis by (simp add: run_body_def Let_def an)
qed

lemma readable_body:
  assumes "readable env f"
  shows "\<exists>t c'. run_body env n i f c = (t, Inr c')"
proof -
  obtain files raised where it: "iterdir env (Path env f) = (files, raised)"
    by (cases "iterdir env (Path env f)")
  have r: "raised = None \<or> (\<exists>m. raised = Some (FileNotFoundError m))"
    using assms it by (cases raised) (auto simp: readable_def split: exn.splits)
  have p: "\<forall>p \<in> set files. plain_name env p"
    using assms it by (cases raised) (auto simp: readable_def list_all_iff split: exn.splits)
  show ?thesis using run_body_returns [OF it r p] .
qed

lemma run_loop_returns:
  assumes "\<forall>f \<in> set folders. readable env f"
  shows "\<exists>t c'. run_loop env n i folders c = (t, Inr c')"
  using assms
proof (induction folders arbitrary: i c)
  case Nil
  then show ?case by simp
next
  case (Cons f fs)
  obtain first c1 where b: "run_body env n i f c = (first, Inr c1)"
    using readable_body [of env f n i c] Cons.prems by auto
  obtain later c' where l: "run_loop env n (i + 1) fs c1 = (later, Inr c')"
    using Cons.IH [of "i + 1" c1] Cons.prems by auto
  show ?case using b l by simp
qed

lemma run_returns:
  assumes "\<forall>f \<in> set folders. readable env f"
  shows "snd (run env folders) = Inr ()"
proof -
  obtain t c where "run_loop env (length folders) 0 folders 0 = (t, Inr c)"
    using run_loop_returns [OF assms] by blast
  then show ?thesis by (simp add: run_def Let_def)
qed

lemma run_returns_example:
  "snd (run example_env [''/v/ep1'', ''/v/ep3'', ''/v/ep4'', ''/v/nowhere'']) = Inr ()"
  by code_simp

end
